theory Spec2Isabelle
  imports Main "HOL-Library.Word"
begin

section \<open>Stream identifiers and the frame layout (types.ts, control.ts, websocket.ts)\<close>

type_synonym byte = "8 word"

text \<open>A Node \<^verbatim>\<open>Buffer\<close> is a sequence of bytes.\<close>

type_synonym Buffer = "byte list"

text \<open>\<^verbatim>\<open>enum StreamID { Stdin = 0, Stdout = 1, Stderr = 2, Exit = 3, StdinEOF = 4 }\<close>\<close>

datatype StreamID = Stdin | Stdout | Stderr | Exit | StdinEOF

fun StreamID_val :: "StreamID \<Rightarrow> byte" where
  "StreamID_val Stdin = 0"
| "StreamID_val Stdout = 1"
| "StreamID_val Stderr = 2"
| "StreamID_val Exit = 3"
| "StreamID_val StdinEOF = 4"

text \<open>
  The outbound layout of \<^verbatim>\<open>OpConn.write\<close> and \<^verbatim>\<open>WSCommand.writeStdin\<close>
  (\<^verbatim>\<open>message = Buffer.allocUnsafe(data.length + 1); message[0] = StreamID.Stdin; data.copy(message, 1)\<close>)
  and of \<^verbatim>\<open>sendEOF\<close> (\<^verbatim>\<open>Buffer.from([StreamID.StdinEOF])\<close>), with the tag as an argument.
\<close>

definition encode :: "StreamID \<Rightarrow> Buffer \<Rightarrow> Buffer" where
  "encode streamId data = StreamID_val streamId # data"

text \<open>
  The inbound split at the head of \<^verbatim>\<open>OpConn.handleData\<close> and of the non-TTY branch of
  \<^verbatim>\<open>WSCommand.handleMessage\<close>:
  \<^verbatim>\<open>if (data.length === 0) return; const streamId = data[0] as StreamID; const payload = data.subarray(1);\<close>
  \<open>None\<close> is the early \<^verbatim>\<open>return\<close>. The cast is unchecked, so the tag stays the raw byte.
\<close>

definition decode :: "Buffer \<Rightarrow> (byte \<times> Buffer) option" where
  "decode data = (case data of [] \<Rightarrow> None | streamId # payload \<Rightarrow> Some (streamId, payload))"

text \<open>\<^verbatim>\<open>payload.length > 0 ? payload[0] : 0\<close>\<close>

definition exit_code_of :: "Buffer \<Rightarrow> int" where
  "exit_code_of payload = (case payload of [] \<Rightarrow> 0 | b # _ \<Rightarrow> uint b)"

section \<open>JSON values and errors\<close>

text \<open>
  The JSON objects the program reads and writes, as a record of the keys it uses. An absent
  key (\<^verbatim>\<open>undefined\<close>) is \<open>None\<close>. The two keys that the handlers read through a cast
  (\<^verbatim>\<open>args.exitCode as number\<close>, \<^verbatim>\<open>args.error as string\<close>) carry the type of the cast.
\<close>

record Args =
  arg_cmd :: "string list option"
  arg_env :: "string list option"
  arg_dir :: "string option"
  arg_tty :: "string option"
  arg_rows :: "string option"
  arg_cols :: "string option"
  arg_stdin :: "string option"
  arg_exitCode :: "int option"
  arg_error :: "string option"

record Message =
  msg_type :: "string option"
  msg_op :: "string option"
  msg_args :: "Args option"
  msg_cols :: "int option"
  msg_rows :: "int option"
  msg_signal :: "string option"
  msg_exit_code :: "int option"

definition no_args :: Args where
  "no_args = \<lparr>arg_cmd = None, arg_env = None, arg_dir = None, arg_tty = None, arg_rows = None,
     arg_cols = None, arg_stdin = None, arg_exitCode = None, arg_error = None\<rparr>"

definition no_message :: Message where
  "no_message = \<lparr>msg_type = None, msg_op = None, msg_args = None, msg_cols = None,
     msg_rows = None, msg_signal = None, msg_exit_code = None\<rparr>"

text \<open>
  \<^verbatim>\<open>JSON.parse\<close>, \<^verbatim>\<open>JSON.stringify\<close> and \<^verbatim>\<open>Number.prototype.toString\<close> are library
  functions; the model takes them as a parameter. \<open>JSON_parse s = None\<close> when
  \<^verbatim>\<open>JSON.parse(s)\<close> throws. \<open>Number_toString\<close> is consulted only for numbers that are
  not safe integers (see \<open>toString\<close> below).
\<close>

record Library =
  JSON_parse :: "string \<Rightarrow> Message option"
  JSON_stringify :: "Message \<Rightarrow> string"
  Number_toString :: "int \<Rightarrow> string"

text \<open>\<^verbatim>\<open>new Error(message)\<close>\<close>

datatype error = Error string

text \<open>\<^verbatim>\<open>Buffer.from(s)\<close> of a string: its bytes.\<close>

definition Buffer_from :: "string \<Rightarrow> Buffer" where
  "Buffer_from s = map of_char s"

section \<open>OpConn (control.ts)\<close>

datatype OpEvent =
    EvStdout Buffer
  | EvStderr Buffer
  | EvExit int
  | EvMessage Message
  | EvError error
  | EvClose

text \<open>
  An object is addressed by a reference; a \<^verbatim>\<open>null\<close> reference is \<open>None\<close>.
\<close>

type_synonym ref = nat

text \<open>
  The fields of \<^verbatim>\<open>class OpConn extends EventEmitter\<close>. The event emitter is modelled by
  three fields: the number of listeners registered for \<^verbatim>\<open>'error'\<close>, the number of
  \<^verbatim>\<open>once('close')\<close> callbacks that pending \<^verbatim>\<open>wait()\<close> calls have registered, and the
  log of what was emitted (oldest first). \<open>op_resolved\<close> logs the value of every
  \<^verbatim>\<open>resolve(this.exitCode)\<close> that a pending \<^verbatim>\<open>wait()\<close> ran.
\<close>

record OpConn =
  op_cc :: ref
  op_tty :: bool
  op_closed :: bool
  op_exitCode :: int
  op_errorListeners :: nat
  op_closeWaiters :: nat
  op_resolved :: "int list"
  op_emitted :: "OpEvent list"

text \<open>\<^verbatim>\<open>new OpConn(cc, tty)\<close>: \<^verbatim>\<open>closed = false\<close>, \<^verbatim>\<open>exitCode = -1\<close>, no listeners.\<close>

definition new_OpConn :: "ref \<Rightarrow> bool \<Rightarrow> OpConn" where
  "new_OpConn cc tty = \<lparr>op_cc = cc, op_tty = tty, op_closed = False, op_exitCode = - 1,
     op_errorListeners = 0, op_closeWaiters = 0, op_resolved = [], op_emitted = []\<rparr>"

text \<open>\<^verbatim>\<open>emit(name, ...)\<close> for an event other than \<^verbatim>\<open>'error'\<close> and \<^verbatim>\<open>'close'\<close>.\<close>

definition emit :: "OpEvent \<Rightarrow> OpConn \<Rightarrow> OpConn" where
  "emit ev op = op\<lparr>op_emitted := op_emitted op @ [ev]\<rparr>"

text \<open>
  \<^verbatim>\<open>emit('error', err)\<close>: an EventEmitter with no \<^verbatim>\<open>'error'\<close> listener throws the error
  out of \<^verbatim>\<open>emit\<close>; with a listener the event is delivered.
\<close>

definition emit_error :: "error \<Rightarrow> OpConn \<Rightarrow> error + OpConn" where
  "emit_error err op =
     (if op_errorListeners op = 0 then Inl err else Inr (emit (EvError err) op))"

text \<open>
  \<^verbatim>\<open>emit('close')\<close>: runs the \<^verbatim>\<open>once('close')\<close> callbacks of the pending \<^verbatim>\<open>wait()\<close>
  calls, each of which is \<^verbatim>\<open>resolve(this.exitCode)\<close>, and removes them.
\<close>

definition emit_close :: "OpConn \<Rightarrow> OpConn" where
  "emit_close op = op\<lparr>op_emitted := op_emitted op @ [EvClose],
     op_resolved := op_resolved op @ replicate (op_closeWaiters op) (op_exitCode op),
     op_closeWaiters := 0\<rparr>"

text \<open>\<^verbatim>\<open>op.on('error', listener)\<close>, as \<^verbatim>\<open>execFileViaControl\<close> does.\<close>

definition on_error :: "OpConn \<Rightarrow> OpConn" where
  "on_error op = op\<lparr>op_errorListeners := Suc (op_errorListeners op)\<rparr>"

text \<open>\<^verbatim>\<open>OpConn.handleData(data)\<close>\<close>

definition OpConn_handleData :: "Buffer \<Rightarrow> OpConn \<Rightarrow> OpConn" where
  "OpConn_handleData data op =
     (if op_tty op then emit (EvStdout data) op
      else (case decode data of
              None \<Rightarrow> op
            | Some (streamId, payload) \<Rightarrow>
                if streamId = StreamID_val Stdout then emit (EvStdout payload) op
                else if streamId = StreamID_val Stderr then emit (EvStderr payload) op
                else if streamId = StreamID_val Exit then
                  (let op' = op\<lparr>op_exitCode := exit_code_of payload\<rparr>
                   in emit (EvExit (op_exitCode op')) op')
                else op))"

text \<open>\<^verbatim>\<open>OpConn.handleText(data)\<close>: a text that is not JSON is ignored.\<close>

definition OpConn_handleText :: "Library \<Rightarrow> string \<Rightarrow> OpConn \<Rightarrow> OpConn" where
  "OpConn_handleText J data op =
     (case JSON_parse J data of
        Some msg \<Rightarrow> emit (EvMessage msg) op
      | None \<Rightarrow> op)"

text \<open>\<^verbatim>\<open>OpConn.complete(exitCode?)\<close>\<close>

definition OpConn_complete :: "int option \<Rightarrow> OpConn \<Rightarrow> OpConn" where
  "OpConn_complete exitCode op =
     (if op_closed op then op
      else
        (let op1 = op\<lparr>op_closed := True\<rparr>;
             op2 = (case exitCode of Some e \<Rightarrow> op1\<lparr>op_exitCode := e\<rparr> | None \<Rightarrow> op1)
         in emit_close op2))"

text \<open>\<^verbatim>\<open>OpConn.close()\<close>\<close>

definition OpConn_close :: "OpConn \<Rightarrow> OpConn" where
  "OpConn_close op =
     (if op_closed op then op
      else emit_close (op\<lparr>op_closed := True\<rparr>))"

definition OpConn_isClosed :: "OpConn \<Rightarrow> bool" where
  "OpConn_isClosed op = op_closed op"

definition OpConn_getExitCode :: "OpConn \<Rightarrow> int" where
  "OpConn_getExitCode op = op_exitCode op"

text \<open>
  The state of the promise an \<^verbatim>\<open>async\<close> function returns. \<^verbatim>\<open>OpConn.wait()\<close> on a closed
  operation returns \<^verbatim>\<open>this.exitCode\<close>; otherwise it returns a pending promise and registers
  a \<^verbatim>\<open>once('close')\<close> callback that resolves it. The promise is built from \<^verbatim>\<open>resolve\<close>
  alone: no statement of \<^verbatim>\<open>wait\<close> rejects it.
\<close>

datatype 'a promise = Pending | Fulfilled 'a | Rejected error

definition OpConn_wait :: "OpConn \<Rightarrow> int promise \<times> OpConn" where
  "OpConn_wait op =
     (if op_closed op then (Fulfilled (op_exitCode op), op)
      else (Pending, op\<lparr>op_closeWaiters := Suc (op_closeWaiters op)\<rparr>))"

section \<open>ControlConnection (control.ts)\<close>

definition CONTROL_PREFIX :: string where
  "CONTROL_PREFIX = ''control:''"

definition TYPE_OP_START :: string where
  "TYPE_OP_START = ''op.start''"

definition TYPE_OP_COMPLETE :: string where
  "TYPE_OP_COMPLETE = ''op.complete''"

definition TYPE_OP_ERROR :: string where
  "TYPE_OP_ERROR = ''op.error''"

text \<open>\<^verbatim>\<open>interface StartOpOptions\<close>: every field is optional.\<close>

record StartOpOptions =
  opt_cmd :: "string list option"
  opt_env :: "string list option"
  opt_dir :: "string option"
  opt_tty :: "bool option"
  opt_rows :: "int option"
  opt_cols :: "int option"
  opt_stdin :: "bool option"

text \<open>The default argument \<^verbatim>\<open>options: StartOpOptions = {}\<close>.\<close>

definition no_options :: StartOpOptions where
  "no_options = \<lparr>opt_cmd = None, opt_env = None, opt_dir = None, opt_tty = None,
     opt_rows = None, opt_cols = None, opt_stdin = None\<rparr>"

text \<open>The transport: a WebSocket with its \<^verbatim>\<open>readyState\<close> and what \<^verbatim>\<open>send\<close> was given.\<close>

datatype ReadyState = CONNECTING | OPEN | CLOSING | CLOSED

datatype frame = TextFrame string | BinaryFrame Buffer

record WebSocket =
  ws_readyState :: ReadyState
  ws_sent :: "frame list"

definition new_WebSocket :: WebSocket where
  "new_WebSocket = \<lparr>ws_readyState = CONNECTING, ws_sent = []\<rparr>"

definition WebSocket_send :: "frame \<Rightarrow> WebSocket \<Rightarrow> WebSocket" where
  "WebSocket_send f ws = ws\<lparr>ws_sent := ws_sent ws @ [f]\<rparr>"

text \<open>\<^verbatim>\<open>ws.close(1000, '')\<close> starts the closing handshake.\<close>

definition WebSocket_close :: "WebSocket \<Rightarrow> WebSocket" where
  "WebSocket_close ws = ws\<lparr>ws_readyState := CLOSING\<rparr>"

text \<open>What a \<^verbatim>\<open>MessageEvent\<close> carries: \<^verbatim>\<open>typeof event.data === 'string'\<close> or an ArrayBuffer.\<close>

datatype MessageData = StringData string | ArrayBufferData Buffer

datatype CCEvent = CCError error | CCClose

text \<open>
  The fields of \<^verbatim>\<open>class ControlConnection\<close>. \<open>cc_connected\<close> is the variable
  \<^verbatim>\<open>connected\<close> that the handlers installed by \<^verbatim>\<open>connect()\<close> share; \<open>cc_emitted\<close> logs
  the connection's own events.
\<close>

record ControlConnection =
  cc_ws :: "WebSocket option"
  cc_opActive :: bool
  cc_opConn :: "ref option"
  cc_closed :: bool
  cc_closeError :: "error option"
  cc_poolActive :: bool
  cc_connected :: bool
  cc_emitted :: "CCEvent list"

definition new_ControlConnection :: ControlConnection where
  "new_ControlConnection = \<lparr>cc_ws = None, cc_opActive = False, cc_opConn = None,
     cc_closed = False, cc_closeError = None, cc_poolActive = False, cc_connected = False,
     cc_emitted = []\<rparr>"

text \<open>
  The store: OpConn and ControlConnection objects by reference, and the next unused
  reference of each kind. A connection holds a reference to its operation, the caller of
  \<^verbatim>\<open>startOp\<close> holds another, and the pool's roster holds references to connections.
\<close>

record heap =
  h_ops :: "ref \<Rightarrow> OpConn"
  h_ccs :: "ref \<Rightarrow> ControlConnection"
  h_nextOp :: ref
  h_nextCC :: ref

definition empty_heap :: heap where
  "empty_heap = \<lparr>h_ops = (\<lambda>_. new_OpConn 0 False), h_ccs = (\<lambda>_. new_ControlConnection),
     h_nextOp = 0, h_nextCC = 0\<rparr>"

definition upd_op :: "ref \<Rightarrow> (OpConn \<Rightarrow> OpConn) \<Rightarrow> heap \<Rightarrow> heap" where
  "upd_op r f h = h\<lparr>h_ops := (h_ops h)(r := f (h_ops h r))\<rparr>"

definition upd_cc :: "ref \<Rightarrow> (ControlConnection \<Rightarrow> ControlConnection) \<Rightarrow> heap \<Rightarrow> heap" where
  "upd_cc c f h = h\<lparr>h_ccs := (h_ccs h)(c := f (h_ccs h c))\<rparr>"

definition ControlConnection_isActive :: "ControlConnection \<Rightarrow> bool" where
  "ControlConnection_isActive cc = cc_poolActive cc"

definition ControlConnection_setActive :: "bool \<Rightarrow> ControlConnection \<Rightarrow> ControlConnection" where
  "ControlConnection_setActive active cc = cc\<lparr>cc_poolActive := active\<rparr>"

definition ControlConnection_clearOpConn :: "ControlConnection \<Rightarrow> ControlConnection" where
  "ControlConnection_clearOpConn cc = cc\<lparr>cc_opConn := None\<rparr>"

definition ControlConnection_isClosed :: "ControlConnection \<Rightarrow> bool" where
  "ControlConnection_isClosed cc = cc_closed cc"

text \<open>The guard \<^verbatim>\<open>!this.ws || this.ws.readyState !== WebSocket.OPEN\<close>, negated.\<close>

definition ws_is_open :: "WebSocket option \<Rightarrow> bool" where
  "ws_is_open w = (case w of None \<Rightarrow> False | Some ws \<Rightarrow> ws_readyState ws = OPEN)"

text \<open>
  \<^verbatim>\<open>ControlConnection.connect()\<close> up to the promise it returns: it throws when a socket
  exists, else creates the socket (the URL and the authorization header are not modelled)
  and installs the handlers below. The promise is settled by \<open>ws_on_open\<close> or by
  \<open>ws_on_error\<close>.
\<close>

definition ControlConnection_connect :: "ControlConnection \<Rightarrow> error + ControlConnection" where
  "ControlConnection_connect cc =
     (if cc_ws cc \<noteq> None then Inl (Error ''Already connected'')
      else Inr (cc\<lparr>cc_ws := Some new_WebSocket, cc_connected := False\<rparr>))"

text \<open>The \<^verbatim>\<open>'open'\<close> listener: the socket is open, \<^verbatim>\<open>connected = true; resolve()\<close>.\<close>

definition ws_on_open :: "ControlConnection \<Rightarrow> ControlConnection" where
  "ws_on_open cc =
     cc\<lparr>cc_ws := map_option (\<lambda>ws. ws\<lparr>ws_readyState := OPEN\<rparr>) (cc_ws cc), cc_connected := True\<rparr>"

text \<open>
  The \<^verbatim>\<open>'error'\<close> listener, given the message it builds: it stores the error, and emits it
  after connection (before connection it rejects the promise of \<^verbatim>\<open>connect()\<close>).
\<close>

definition ws_on_error :: "string \<Rightarrow> ControlConnection \<Rightarrow> ControlConnection" where
  "ws_on_error m cc =
     (let cc1 = cc\<lparr>cc_closeError := Some (Error m)\<rparr>
      in if cc_connected cc1 then cc1\<lparr>cc_emitted := cc_emitted cc1 @ [CCError (Error m)]\<rparr>
         else cc1)"

text \<open>\<^verbatim>\<open>ControlConnection.sendControl(msg)\<close>\<close>

definition ControlConnection_sendControl ::
  "Library \<Rightarrow> Message \<Rightarrow> ControlConnection \<Rightarrow> error + ControlConnection" where
  "ControlConnection_sendControl J msg cc =
     (if \<not> ws_is_open (cc_ws cc) then Inl (Error ''WebSocket not connected'')
      else
        (let frame = CONTROL_PREFIX @ JSON_stringify J msg
         in Inr (cc\<lparr>cc_ws := map_option (WebSocket_send (TextFrame frame)) (cc_ws cc)\<rparr>)))"

text \<open>\<^verbatim>\<open>ControlConnection.sendData(data)\<close>\<close>

definition ControlConnection_sendData :: "Buffer \<Rightarrow> ControlConnection \<Rightarrow> error + ControlConnection" where
  "ControlConnection_sendData data cc =
     (if \<not> ws_is_open (cc_ws cc) then Inl (Error ''WebSocket not connected'')
      else Inr (cc\<lparr>cc_ws := map_option (WebSocket_send (BinaryFrame data)) (cc_ws cc)\<rparr>))"

text \<open>
  A method that may throw returns what it threw or returned, together with the store as the
  method left it.
\<close>

type_synonym 'a outcome = "(error + 'a) \<times> heap"

text \<open>\<^verbatim>\<open>this.cc.sendData(data)\<close> from an operation whose connection is \<open>c\<close>.\<close>

definition cc_sendData :: "ref \<Rightarrow> Buffer \<Rightarrow> heap \<Rightarrow> unit outcome" where
  "cc_sendData c data h =
     (case ControlConnection_sendData data (h_ccs h c) of
        Inl e \<Rightarrow> (Inl e, h)
      | Inr cc' \<Rightarrow> (Inr (), upd_cc c (\<lambda>_. cc') h))"

text \<open>\<^verbatim>\<open>OpConn.write(data)\<close>\<close>

definition OpConn_write :: "ref \<Rightarrow> Buffer \<Rightarrow> heap \<Rightarrow> unit outcome" where
  "OpConn_write r data h =
     (let op = h_ops h r in
      if op_closed op then (Inl (Error ''Operation closed''), h)
      else if op_tty op then cc_sendData (op_cc op) data h
      else cc_sendData (op_cc op) (encode Stdin data) h)"

text \<open>\<^verbatim>\<open>OpConn.sendEOF()\<close>\<close>

definition OpConn_sendEOF :: "ref \<Rightarrow> heap \<Rightarrow> unit outcome" where
  "OpConn_sendEOF r h =
     (let op = h_ops h r in
      if op_closed op \<or> op_tty op then (Inr (), h)
      else cc_sendData (op_cc op) (encode StdinEOF []) h)"

text \<open>\<^verbatim>\<open>OpConn.resize(cols, rows)\<close>\<close>

definition OpConn_resize :: "Library \<Rightarrow> ref \<Rightarrow> int \<Rightarrow> int \<Rightarrow> heap \<Rightarrow> unit outcome" where
  "OpConn_resize J r cols rows h =
     (let op = h_ops h r in
      if \<not> op_tty op then (Inr (), h)
      else
        (let msg = JSON_stringify J
               (no_message\<lparr>msg_type := Some ''resize'', msg_cols := Some cols, msg_rows := Some rows\<rparr>)
         in cc_sendData (op_cc op) (Buffer_from msg) h))"

text \<open>\<^verbatim>\<open>OpConn.signal(sig)\<close>\<close>

definition OpConn_signal :: "Library \<Rightarrow> ref \<Rightarrow> string \<Rightarrow> heap \<Rightarrow> unit outcome" where
  "OpConn_signal J r sig h =
     (let op = h_ops h r;
          msg = JSON_stringify J (no_message\<lparr>msg_type := Some ''signal'', msg_signal := Some sig\<rparr>)
      in cc_sendData (op_cc op) (Buffer_from msg) h)"

text \<open>
  \<^verbatim>\<open>ControlConnection.handleControlMessage(msg)\<close> on the connection \<open>c\<close>. In the
  \<^verbatim>\<open>op.error\<close> case \<^verbatim>\<open>this.opConn.emit('error', ...)\<close> may throw; what follows it
  (\<^verbatim>\<open>complete()\<close> and the two assignments) then does not run.
\<close>

definition ControlConnection_handleControlMessage :: "ref \<Rightarrow> Message \<Rightarrow> heap \<Rightarrow> unit outcome" where
  "ControlConnection_handleControlMessage c msg h =
     (if msg_type msg = Some TYPE_OP_COMPLETE then
        (let h1 = (case cc_opConn (h_ccs h c) of
                     Some r \<Rightarrow>
                       (let exitCode =
                              (case msg_args msg of
                                 None \<Rightarrow> 0
                               | Some a \<Rightarrow> (case arg_exitCode a of None \<Rightarrow> 0 | Some n \<Rightarrow> n))
                        in upd_op r (OpConn_complete (Some exitCode)) h)
                   | None \<Rightarrow> h)
         in (Inr (), upd_cc c (\<lambda>cc. cc\<lparr>cc_opActive := False, cc_opConn := None\<rparr>) h1))
      else if msg_type msg = Some TYPE_OP_ERROR then
        (case cc_opConn (h_ccs h c) of
           Some r \<Rightarrow>
             (let error =
                    (case msg_args msg of
                       None \<Rightarrow> ''unknown error''
                     | Some a \<Rightarrow> (case arg_error a of None \<Rightarrow> ''unknown error'' | Some m \<Rightarrow> m))
              in case emit_error (Error error) (h_ops h r) of
                   Inl e \<Rightarrow> (Inl e, h)
                 | Inr op' \<Rightarrow>
                     (Inr (),
                      upd_cc c (\<lambda>cc. cc\<lparr>cc_opActive := False, cc_opConn := None\<rparr>)
                        (upd_op r (\<lambda>_. OpConn_complete None op') h)))
         | None \<Rightarrow> (Inr (), upd_cc c (\<lambda>cc. cc\<lparr>cc_opActive := False, cc_opConn := None\<rparr>) h))
      else (Inr (), h))"

text \<open>\<^verbatim>\<open>s.startsWith(p)\<close>\<close>

definition startsWith :: "string \<Rightarrow> string \<Rightarrow> bool" where
  "startsWith s p = (take (length p) s = p)"

text \<open>
  \<^verbatim>\<open>ControlConnection.handleMessage(event)\<close>. The \<^verbatim>\<open>try\<close> around the control branch
  catches what \<^verbatim>\<open>JSON.parse\<close> and \<^verbatim>\<open>handleControlMessage\<close> throw and drops it; the store
  stays as the throwing call left it.
\<close>

definition ControlConnection_handleMessage :: "Library \<Rightarrow> ref \<Rightarrow> MessageData \<Rightarrow> heap \<Rightarrow> heap" where
  "ControlConnection_handleMessage J c data h =
     (case data of
        StringData s \<Rightarrow>
          if startsWith s CONTROL_PREFIX then
            (let payload = drop (length CONTROL_PREFIX) s
             in case JSON_parse J payload of
                  None \<Rightarrow> h
                | Some msg \<Rightarrow> snd (ControlConnection_handleControlMessage c msg h))
          else
            (case cc_opConn (h_ccs h c) of
               Some r \<Rightarrow> upd_op r (OpConn_handleText J s) h
             | None \<Rightarrow> h)
      | ArrayBufferData b \<Rightarrow>
          (case cc_opConn (h_ccs h c) of
             Some r \<Rightarrow> upd_op r (OpConn_handleData b) h
           | None \<Rightarrow> h))"

text \<open>\<^verbatim>\<open>ControlConnection.handleClose()\<close>, the \<^verbatim>\<open>'close'\<close> listener of the socket.\<close>

definition ControlConnection_handleClose :: "ref \<Rightarrow> heap \<Rightarrow> heap" where
  "ControlConnection_handleClose c h =
     (let h1 = upd_cc c (\<lambda>cc. cc\<lparr>cc_closed := True\<rparr>) h;
          h2 = (case cc_opConn (h_ccs h1 c) of
                  Some r \<Rightarrow> upd_op r OpConn_close h1
                | None \<Rightarrow> h1)
      in upd_cc c (\<lambda>cc. cc\<lparr>cc_emitted := cc_emitted cc @ [CCClose]\<rparr>) h2)"

text \<open>The socket closes: its state becomes \<^verbatim>\<open>CLOSED\<close> and the \<^verbatim>\<open>'close'\<close> listener runs.\<close>

definition ws_on_close :: "ref \<Rightarrow> heap \<Rightarrow> heap" where
  "ws_on_close c h =
     ControlConnection_handleClose c
       (upd_cc c (\<lambda>cc. cc\<lparr>cc_ws := map_option (\<lambda>ws. ws\<lparr>ws_readyState := CLOSED\<rparr>) (cc_ws cc)\<rparr>) h)"

text \<open>The decimal digits of a natural number, and the decimal numeral of an integer.\<close>

fun digits :: "nat \<Rightarrow> string" where
  "digits n = (if n < 10 then [char_of (48 + n)] else digits (n div 10) @ [char_of (48 + n mod 10)])"

declare digits.simps [simp del]

definition decimal :: "int \<Rightarrow> string" where
  "decimal i = (if i < 0 then CHR ''-'' # digits (nat (- i)) else digits (nat i))"

text \<open>\<^verbatim>\<open>Number.MAX_SAFE_INTEGER\<close>\<close>

definition MAX_SAFE_INTEGER :: int where
  "MAX_SAFE_INTEGER = 2 ^ 53 - 1"

text \<open>
  \<^verbatim>\<open>n.toString()\<close> of a number whose value is the integer \<open>i\<close>. A safe integer prints as
  its decimal numeral. Beyond that range JavaScript prints the shortest digits that identify
  the double, and from \<^verbatim>\<open>1e21\<close> it uses exponent notation: that part is the library's.
\<close>

definition toString :: "Library \<Rightarrow> int \<Rightarrow> string" where
  "toString J i = (if \<bar>i\<bar> \<le> MAX_SAFE_INTEGER then decimal i else Number_toString J i)"

text \<open>
  The \<^verbatim>\<open>args\<close> object of \<^verbatim>\<open>startOp\<close>. The tests are JavaScript truthiness: an array is
  truthy, a string when not empty, a number when not zero.
\<close>

definition build_args :: "Library \<Rightarrow> StartOpOptions \<Rightarrow> Args" where
  "build_args J options =
     (let args = no_args;
          args = (case opt_cmd options of Some cmd \<Rightarrow> args\<lparr>arg_cmd := Some cmd\<rparr> | None \<Rightarrow> args);
          args = (case opt_env options of Some env \<Rightarrow> args\<lparr>arg_env := Some env\<rparr> | None \<Rightarrow> args);
          args = (case opt_dir options of
                    Some dir \<Rightarrow> if dir \<noteq> [] then args\<lparr>arg_dir := Some dir\<rparr> else args
                  | None \<Rightarrow> args);
          args = (if opt_tty options = Some True then args\<lparr>arg_tty := Some ''true''\<rparr> else args);
          args = (case opt_rows options of
                    Some rows \<Rightarrow> if rows \<noteq> 0 then args\<lparr>arg_rows := Some (toString J rows)\<rparr> else args
                  | None \<Rightarrow> args);
          args = (case opt_cols options of
                    Some cols \<Rightarrow> if cols \<noteq> 0 then args\<lparr>arg_cols := Some (toString J cols)\<rparr> else args
                  | None \<Rightarrow> args);
          args = (case opt_stdin options of
                    Some stdin \<Rightarrow> args\<lparr>arg_stdin := Some (if stdin then ''true'' else ''false'')\<rparr>
                  | None \<Rightarrow> args)
      in args)"

text \<open>\<^verbatim>\<open>this.closeError?.message || 'unknown'\<close>\<close>

definition closeError_message :: "error option \<Rightarrow> string" where
  "closeError_message e =
     (case e of None \<Rightarrow> ''unknown'' | Some (Error m) \<Rightarrow> if m = [] then ''unknown'' else m)"

text \<open>
  \<^verbatim>\<open>ControlConnection.startOp(op, options)\<close> on the connection \<open>c\<close>. The function is
  \<^verbatim>\<open>async\<close> and never awaits, so its promise is settled when it returns: \<open>Inl\<close> is the
  rejection, \<open>Inr\<close> the reference of the new OpConn.
\<close>

definition ControlConnection_startOp ::
  "Library \<Rightarrow> ref \<Rightarrow> string \<Rightarrow> StartOpOptions \<Rightarrow> heap \<Rightarrow> ref outcome" where
  "ControlConnection_startOp J c op options h =
     (let cc = h_ccs h c in
      if cc_closed cc then
        (Inl (Error (''Control connection closed: '' @ closeError_message (cc_closeError cc))), h)
      else if cc_opActive cc then (Inl (Error ''Operation already in progress''), h)
      else if \<not> ws_is_open (cc_ws cc) then (Inl (Error ''WebSocket not connected''), h)
      else
        (let opConn = h_nextOp h;
             h1 = h\<lparr>h_ops := (h_ops h)(opConn := new_OpConn c (opt_tty options = Some True)),
                    h_nextOp := Suc (h_nextOp h)\<rparr>;
             h2 = upd_cc c (\<lambda>cc. cc\<lparr>cc_opActive := True, cc_opConn := Some opConn\<rparr>) h1;
             args = build_args J options;
             ctrlMsg = no_message\<lparr>msg_type := Some TYPE_OP_START, msg_op := Some op,
                         msg_args := Some args\<rparr>
         in case ControlConnection_sendControl J ctrlMsg (h_ccs h2 c) of
              Inl e \<Rightarrow> (Inl e, h2)
            | Inr cc' \<Rightarrow> (Inr opConn, upd_cc c (\<lambda>_. cc') h2)))"

text \<open>\<^verbatim>\<open>ControlConnection.close()\<close>\<close>

definition ControlConnection_close :: "ref \<Rightarrow> heap \<Rightarrow> heap" where
  "ControlConnection_close c h =
     (let h1 = (case cc_opConn (h_ccs h c) of
                  Some r \<Rightarrow> upd_op r OpConn_close h
                | None \<Rightarrow> h);
          h2 = (if ws_is_open (cc_ws (h_ccs h1 c))
                then upd_cc c (\<lambda>cc. cc\<lparr>cc_ws := map_option WebSocket_close (cc_ws cc)\<rparr>) h1
                else h1)
      in upd_cc c (\<lambda>cc. cc\<lparr>cc_closed := True\<rparr>) h2)"

section \<open>ControlPool (control.ts)\<close>

definition MAX_POOL_SIZE :: int where
  "MAX_POOL_SIZE = 100"

definition POOL_DRAIN_THRESHOLD :: int where
  "POOL_DRAIN_THRESHOLD = 20"

definition POOL_DRAIN_TARGET :: int where
  "POOL_DRAIN_TARGET = 10"

text \<open>
  A waiter is the \<^verbatim>\<open>{resolve, reject}\<close> pair of the promise a queued \<^verbatim>\<open>acquire()\<close>
  returned; it is named by a number. \<open>pool_settled\<close> logs the calls of \<^verbatim>\<open>resolve\<close> and
  \<^verbatim>\<open>reject\<close>, oldest first.
\<close>

datatype settle = Resolve ref | Reject error

record ControlPool =
  pool_conns :: "ref list"
  pool_waiters :: "ref list"
  pool_closed :: bool
  pool_maxSize :: int
  pool_nextWaiter :: ref
  pool_settled :: "(ref \<times> settle) list"

text \<open>\<^verbatim>\<open>new ControlPool(sprite, maxSize = MAX_POOL_SIZE)\<close>\<close>

definition new_ControlPool :: "int \<Rightarrow> ControlPool" where
  "new_ControlPool maxSize = \<lparr>pool_conns = [], pool_waiters = [], pool_closed = False,
     pool_maxSize = maxSize, pool_nextWaiter = 0, pool_settled = []\<rparr>"

text \<open>
  \<^verbatim>\<open>ControlPool.acquire()\<close> is \<^verbatim>\<open>async\<close>. It runs without interruption up to its first
  suspension and reports how it stopped: it returned a connection, it threw, it is suspended
  at \<^verbatim>\<open>await cc.connect()\<close> for the new connection \<open>cc\<close>, or it returned the promise of a
  queued waiter.
\<close>

datatype acquire_step = Returned ref | Threw error | AwaitConnect ref | AwaitWaiter ref

definition available :: "heap \<Rightarrow> ref \<Rightarrow> bool" where
  "available h cc =
     (\<not> ControlConnection_isClosed (h_ccs h cc) \<and> \<not> ControlConnection_isActive (h_ccs h cc))"

definition ControlPool_acquire :: "ControlPool \<Rightarrow> heap \<Rightarrow> acquire_step \<times> ControlPool \<times> heap" where
  "ControlPool_acquire p h =
     (if pool_closed p then (Threw (Error ''Pool is closed''), p, h)
      else
        (case find (available h) (pool_conns p) of
           Some cc \<Rightarrow> (Returned cc, p, upd_cc cc (ControlConnection_setActive True) h)
         | None \<Rightarrow>
             if int (length (pool_conns p)) < pool_maxSize p then
               (let cc = h_nextCC h;
                    h1 = h\<lparr>h_ccs := (h_ccs h)(cc := new_ControlConnection), h_nextCC := Suc cc\<rparr>
                in case ControlConnection_connect (h_ccs h1 cc) of
                     Inl e \<Rightarrow> (Threw e, p, h1)
                   | Inr cc' \<Rightarrow> (AwaitConnect cc, p, upd_cc cc (\<lambda>_. cc') h1))
             else
               (let w = pool_nextWaiter p
                in (AwaitWaiter w,
                    p\<lparr>pool_waiters := pool_waiters p @ [w], pool_nextWaiter := Suc w\<rparr>, h))))"

text \<open>
  The rest of \<^verbatim>\<open>acquire()\<close>, run when the promise of \<^verbatim>\<open>cc.connect()\<close> is fulfilled:
  \<^verbatim>\<open>this.conns.push(cc); cc.setActive(true); return cc\<close>. (When the promise is rejected,
  \<^verbatim>\<open>acquire()\<close> rejects and changes nothing.)
\<close>

definition ControlPool_acquire_connected :: "ref \<Rightarrow> ControlPool \<Rightarrow> heap \<Rightarrow> ref \<times> ControlPool \<times> heap" where
  "ControlPool_acquire_connected cc p h =
     (cc, p\<lparr>pool_conns := pool_conns p @ [cc]\<rparr>, upd_cc cc (ControlConnection_setActive True) h)"

text \<open>
  The loop of \<^verbatim>\<open>tryDrain\<close> over \<^verbatim>\<open>idleConns\<close>, with its counter \<^verbatim>\<open>closed\<close>.
\<close>

fun drain_loop :: "ref list \<Rightarrow> int \<Rightarrow> int \<Rightarrow> ControlPool \<Rightarrow> heap \<Rightarrow> ControlPool \<times> heap" where
  "drain_loop [] closed toClose p h = (p, h)"
| "drain_loop (cc # idleConns) closed toClose p h =
     (if closed \<ge> toClose then (p, h)
      else drain_loop idleConns (closed + 1) toClose
             (p\<lparr>pool_conns := filter (\<lambda>c. c \<noteq> cc) (pool_conns p)\<rparr>)
             (ControlConnection_close cc h))"

text \<open>\<^verbatim>\<open>ControlPool.tryDrain()\<close>\<close>

definition ControlPool_tryDrain :: "ControlPool \<Rightarrow> heap \<Rightarrow> ControlPool \<times> heap" where
  "ControlPool_tryDrain p h =
     (if pool_closed p \<or> int (length (pool_conns p)) \<le> POOL_DRAIN_THRESHOLD then (p, h)
      else
        (let idleConns = filter (\<lambda>cc. \<not> ControlConnection_isActive (h_ccs h cc)
                                        \<and> \<not> ControlConnection_isClosed (h_ccs h cc)) (pool_conns p);
             toClose = int (length (pool_conns p)) - POOL_DRAIN_TARGET
         in if toClose \<le> 0 then (p, h)
            else drain_loop idleConns 0 toClose p h))"

text \<open>\<^verbatim>\<open>ControlPool.release(cc)\<close>\<close>

definition ControlPool_release :: "ref \<Rightarrow> ControlPool \<Rightarrow> heap \<Rightarrow> ControlPool \<times> heap" where
  "ControlPool_release cc p h =
     (let h1 = upd_cc cc (ControlConnection_setActive False) h;
          h2 = upd_cc cc ControlConnection_clearOpConn h1
      in case pool_waiters p of
           waiter # rest \<Rightarrow>
             (p\<lparr>pool_waiters := rest, pool_settled := pool_settled p @ [(waiter, Resolve cc)]\<rparr>,
              upd_cc cc (ControlConnection_setActive True) h2)
         | [] \<Rightarrow> ControlPool_tryDrain p h2)"

text \<open>\<^verbatim>\<open>ControlPool.close()\<close>\<close>

definition ControlPool_close :: "ControlPool \<Rightarrow> heap \<Rightarrow> ControlPool \<times> heap" where
  "ControlPool_close p h =
     (let p1 = p\<lparr>pool_closed := True\<rparr>;
          p2 = p1\<lparr>pool_settled := pool_settled p1
                    @ map (\<lambda>waiter. (waiter, Reject (Error ''Pool is closed''))) (pool_waiters p1),
                  pool_waiters := []\<rparr>;
          h1 = fold ControlConnection_close (pool_conns p2) h
      in (p2\<lparr>pool_conns := []\<rparr>, h1))"

definition ControlPool_size :: "ControlPool \<Rightarrow> nat" where
  "ControlPool_size p = length (pool_conns p)"

section \<open>WSCommand (websocket.ts)\<close>

datatype WSEvent =
    WsStdout Buffer
  | WsStderr Buffer
  | WsExit int
  | WsMessage Message
  | WsRawMessage string
  | WsError error

definition WS_PING_INTERVAL :: int where
  "WS_PING_INTERVAL = 15000"

definition WS_PONG_WAIT :: int where
  "WS_PONG_WAIT = 45000"

text \<open>
  The fields of \<^verbatim>\<open>class WSCommand\<close> that the handlers read or write (\<^verbatim>\<open>url\<close>,
  \<^verbatim>\<open>headers\<close>, \<^verbatim>\<open>started\<close> and \<^verbatim>\<open>isAttach\<close> are used by \<^verbatim>\<open>start()\<close> only). A timer
  field tells whether the timer is set; times are in milliseconds. \<open>wsc_resolved\<close> is the
  variable \<^verbatim>\<open>resolved\<close> of \<^verbatim>\<open>start()\<close>, \<open>wsc_emitted\<close> the log of emitted events.
\<close>

record WSCommand =
  wsc_ws :: "WebSocket option"
  wsc_exitCode :: int
  wsc_tty :: bool
  wsc_done :: bool
  wsc_closeError :: "error option"
  wsc_pingInterval :: bool
  wsc_pongTimeout :: bool
  wsc_lastPongTime :: int
  wsc_resolved :: bool
  wsc_emitted :: "WSEvent list"

text \<open>
  A session as \<^verbatim>\<open>start()\<close> leaves it once the socket is open: \<^verbatim>\<open>startKeepalive()\<close> has
  set the interval timer and the clock, which reads 0 at that moment.
\<close>

definition new_WSCommand :: "bool \<Rightarrow> WSCommand" where
  "new_WSCommand tty = \<lparr>wsc_ws = Some (new_WebSocket\<lparr>ws_readyState := OPEN\<rparr>), wsc_exitCode = - 1,
     wsc_tty = tty, wsc_done = False, wsc_closeError = None, wsc_pingInterval = True,
     wsc_pongTimeout = False, wsc_lastPongTime = 0, wsc_resolved = True, wsc_emitted = []\<rparr>"

definition ws_emit :: "WSEvent \<Rightarrow> WSCommand \<Rightarrow> WSCommand" where
  "ws_emit ev s = s\<lparr>wsc_emitted := wsc_emitted s @ [ev]\<rparr>"

text \<open>\<^verbatim>\<open>WSCommand.stopKeepalive()\<close>: both timers are cleared.\<close>

definition stopKeepalive :: "WSCommand \<Rightarrow> WSCommand" where
  "stopKeepalive s = s\<lparr>wsc_pingInterval := False, wsc_pongTimeout := False\<rparr>"

text \<open>\<^verbatim>\<open>WSCommand.resetKeepalive()\<close>, with the value of \<^verbatim>\<open>Date.now()\<close> as argument.\<close>

definition resetKeepalive :: "int \<Rightarrow> WSCommand \<Rightarrow> WSCommand" where
  "resetKeepalive now s = s\<lparr>wsc_lastPongTime := now\<rparr>"

text \<open>\<^verbatim>\<open>WSCommand.close()\<close>\<close>

definition WSCommand_close :: "WSCommand \<Rightarrow> WSCommand" where
  "WSCommand_close s =
     (let s1 = stopKeepalive s
      in if ws_is_open (wsc_ws s1) then s1\<lparr>wsc_ws := map_option WebSocket_close (wsc_ws s1)\<rparr>
         else s1)"

text \<open>
  The callback of the interval timer that \<^verbatim>\<open>startKeepalive()\<close> sets, run at the time
  \<open>now\<close>.
\<close>

definition keepalive_tick :: "int \<Rightarrow> WSCommand \<Rightarrow> WSCommand" where
  "keepalive_tick now s =
     (if \<not> ws_is_open (wsc_ws s) then stopKeepalive s
      else
        (let timeSinceLastPong = now - wsc_lastPongTime s
         in if timeSinceLastPong > WS_PONG_WAIT
            then WSCommand_close (ws_emit (WsError (Error ''WebSocket keepalive timeout'')) s)
            else s))"

text \<open>The bytes \<^verbatim>\<open>Buffer.from(event.data as ArrayBuffer)\<close> yields.\<close>

definition data_bytes :: "MessageData \<Rightarrow> Buffer" where
  "data_bytes d = (case d of StringData s \<Rightarrow> Buffer_from s | ArrayBufferData b \<Rightarrow> b)"

text \<open>\<^verbatim>\<open>if (!this.done) { this.done = true; this.emit('exit', this.exitCode); }\<close>\<close>

definition exit_once :: "WSCommand \<Rightarrow> WSCommand" where
  "exit_once s = (if \<not> wsc_done s then ws_emit (WsExit (wsc_exitCode s)) (s\<lparr>wsc_done := True\<rparr>) else s)"

text \<open>
  \<^verbatim>\<open>WSCommand.handleMessage(event)\<close> for a message that arrives at the time \<open>now\<close>: the
  keepalive clock is reset first, whatever the message.
\<close>

definition WSCommand_handleMessage ::
  "Library \<Rightarrow> int \<Rightarrow> MessageData \<Rightarrow> WSCommand \<Rightarrow> WSCommand" where
  "WSCommand_handleMessage J now d s0 =
     (let s = resetKeepalive now s0
      in if wsc_tty s then
           (case d of
              StringData str \<Rightarrow>
                (case JSON_parse J str of
                   Some msg \<Rightarrow>
                     (let s1 = (case msg_exit_code msg of
                                  Some code \<Rightarrow>
                                    if msg_type msg = Some ''exit''
                                    then exit_once (s\<lparr>wsc_exitCode := code\<rparr>) else s
                                | None \<Rightarrow> s)
                      in ws_emit (WsMessage msg) s1)
                 | None \<Rightarrow> ws_emit (WsRawMessage str) s)
            | ArrayBufferData buffer \<Rightarrow> ws_emit (WsStdout buffer) s)
         else
           (case decode (data_bytes d) of
              None \<Rightarrow> s
            | Some (streamId, payload) \<Rightarrow>
                if streamId = StreamID_val Stdout then ws_emit (WsStdout payload) s
                else if streamId = StreamID_val Stderr then ws_emit (WsStderr payload) s
                else if streamId = StreamID_val Exit then
                  WSCommand_close (exit_once (s\<lparr>wsc_exitCode := exit_code_of payload\<rparr>))
                else s))"

text \<open>
  The error \<^verbatim>\<open>handleClose\<close> reports for a non-TTY session that closes with no exit code:
  \<^verbatim>\<open>this.closeError || new Error(`WebSocket closed without exit frame (code ${event.code})`)\<close>
\<close>

definition close_error :: "Library \<Rightarrow> int \<Rightarrow> WSCommand \<Rightarrow> error" where
  "close_error J code s =
     (case wsc_closeError s of
        Some e \<Rightarrow> e
      | None \<Rightarrow> Error (''WebSocket closed without exit frame (code '' @ toString J code @ '')''))"

text \<open>\<^verbatim>\<open>WSCommand.handleClose(event)\<close>, with \<^verbatim>\<open>event.code\<close> as argument.\<close>

definition WSCommand_handleClose :: "Library \<Rightarrow> int \<Rightarrow> WSCommand \<Rightarrow> WSCommand" where
  "WSCommand_handleClose J code s0 =
     (let s = stopKeepalive s0
      in if \<not> wsc_done s then
           (let s1 = s\<lparr>wsc_done := True\<rparr>
            in if \<not> wsc_tty s1 \<and> wsc_exitCode s1 = - 1
               then ws_emit (WsError (close_error J code s1)) s1
               else
                 (let s2 = (if wsc_tty s1 \<and> wsc_exitCode s1 = - 1
                            then s1\<lparr>wsc_exitCode := (if code = 1000 then 0 else 1)\<rparr> else s1)
                  in ws_emit (WsExit (wsc_exitCode s2)) s2))
         else s)"

text \<open>
  The \<^verbatim>\<open>'error'\<close> listener of \<^verbatim>\<open>start()\<close>: ignored once done; before the promise of
  \<^verbatim>\<open>start()\<close> is resolved the error is emitted (and the promise rejected), afterwards it
  is kept for \<^verbatim>\<open>handleClose\<close>.
\<close>

definition WSCommand_onError :: "WSCommand \<Rightarrow> WSCommand" where
  "WSCommand_onError s =
     (if wsc_done s then s
      else if \<not> wsc_resolved s then ws_emit (WsError (Error ''WebSocket error'')) s
      else s\<lparr>wsc_closeError := Some (Error ''WebSocket error'')\<rparr>)"

text \<open>Messages with their times of arrival, handled in order.\<close>

definition handle_all :: "Library \<Rightarrow> (int \<times> MessageData) list \<Rightarrow> WSCommand \<Rightarrow> WSCommand" where
  "handle_all J ds s = fold (\<lambda>(now, d). WSCommand_handleMessage J now d) ds s"

section \<open>Notions used to state the properties\<close>



text \<open>The events that end a command session: \<^verbatim>\<open>'exit'\<close> and \<^verbatim>\<open>'error'\<close>.\<close>

fun terminal :: "WSEvent \<Rightarrow> bool" where
  "terminal (WsExit _) = True"
| "terminal (WsError _) = True"
| "terminal _ = False"

text \<open>A message that the non-TTY branch of \<^verbatim>\<open>handleMessage\<close> reads as an Exit frame.\<close>

definition is_exit_frame :: "MessageData \<Rightarrow> bool" where
  "is_exit_frame d =
     (case decode (data_bytes d) of
        Some (streamId, _) \<Rightarrow> streamId = StreamID_val Exit
      | None \<Rightarrow> False)"

section \<open>Example objects\<close>

text \<open>
  A stand-in for the library that reads the two envelopes of the examples and writes
  every object as \<^verbatim>\<open>{}\<close>.
\<close>

definition op_complete_json :: string where
  \<open>op_complete_json = ''{"type":"op.complete","args":{"exitCode":7}}''\<close>

definition op_error_json :: string where
  \<open>op_error_json = ''{"type":"op.error","args":{"error":"boom"}}''\<close>

definition op_complete_msg :: Message where
  "op_complete_msg = no_message\<lparr>msg_type := Some ''op.complete'',
     msg_args := Some (no_args\<lparr>arg_exitCode := Some 7\<rparr>)\<rparr>"

definition op_error_msg :: Message where
  "op_error_msg = no_message\<lparr>msg_type := Some ''op.error'',
     msg_args := Some (no_args\<lparr>arg_error := Some ''boom''\<rparr>)\<rparr>"

definition demo_JSON :: Library where
  "demo_JSON = \<lparr>JSON_parse = (\<lambda>s. if s = op_complete_json then Some op_complete_msg
                                  else if s = op_error_json then Some op_error_msg
                                  else None),
                 JSON_stringify = (\<lambda>_. ''{}''),
                 Number_toString = (\<lambda>_. ''1e+21'')\<rparr>"

text \<open>
  A second stand-in that writes an object the way \<^verbatim>\<open>JSON.stringify\<close> does for strings
  that need no escaping: the keys that are present, in the order of insertion.
\<close>

definition quote :: "string \<Rightarrow> string" where
  \<open>quote s = ''"'' @ s @ ''"''\<close>

fun join :: "string \<Rightarrow> string list \<Rightarrow> string" where
  "join sep [] = []"
| "join sep [x] = x"
| "join sep (x # y # ys) = x @ sep @ join sep (y # ys)"

definition render_strings :: "string list \<Rightarrow> string" where
  "render_strings xs = ''['' @ join '','' (map quote xs) @ '']''"

definition render_object :: "(string \<times> string option) list \<Rightarrow> string" where
  "render_object kvs =
     ''{'' @ join '','' (concat (map (\<lambda>(k, v). case v of Some t \<Rightarrow> [quote k @ '':'' @ t] | None \<Rightarrow> [])
                                   kvs)) @ ''}''"

definition render_Args :: "Args \<Rightarrow> string" where
  "render_Args a = render_object
     [(''cmd'', map_option render_strings (arg_cmd a)),
      (''env'', map_option render_strings (arg_env a)),
      (''dir'', map_option quote (arg_dir a)),
      (''tty'', map_option quote (arg_tty a)),
      (''rows'', map_option quote (arg_rows a)),
      (''cols'', map_option quote (arg_cols a)),
      (''stdin'', map_option quote (arg_stdin a)),
      (''exitCode'', map_option decimal (arg_exitCode a)),
      (''error'', map_option quote (arg_error a))]"

definition render_Message :: "Message \<Rightarrow> string" where
  "render_Message m = render_object
     [(''type'', map_option quote (msg_type m)),
      (''op'', map_option quote (msg_op m)),
      (''args'', map_option render_Args (msg_args m)),
      (''cols'', map_option decimal (msg_cols m)),
      (''rows'', map_option decimal (msg_rows m)),
      (''signal'', map_option quote (msg_signal m)),
      (''exit_code'', map_option decimal (msg_exit_code m))]"

definition print_JSON :: Library where
  "print_JSON = \<lparr>JSON_parse = JSON_parse demo_JSON, JSON_stringify = render_Message,
                  Number_toString = Number_toString demo_JSON\<rparr>"

text \<open>The options of \<^verbatim>\<open>ls -la\<close> in \<^verbatim>\<open>/tmp\<close> on a 24 by 80 terminal.\<close>

definition exec_options :: StartOpOptions where
  "exec_options = \<lparr>opt_cmd = Some [''ls'', ''-la''], opt_env = Some [''A=1''],
     opt_dir = Some ''/tmp'', opt_tty = Some True, opt_rows = Some 24, opt_cols = Some 80,
     opt_stdin = Some True\<rparr>"

text \<open>A connection after \<^verbatim>\<open>connect()\<close> and the \<^verbatim>\<open>'open'\<close> event.\<close>

definition opened_ControlConnection :: ControlConnection where
  "opened_ControlConnection =
     (case ControlConnection_connect new_ControlConnection of
        Inr cc \<Rightarrow> ws_on_open cc
      | Inl _ \<Rightarrow> new_ControlConnection)"

text \<open>A store with the single, idle, open connection 0.\<close>

definition idle_heap :: heap where
  "idle_heap = empty_heap\<lparr>h_ccs := (h_ccs empty_heap)(0 := opened_ControlConnection),
     h_nextCC := 1\<rparr>"

text \<open>
  The same after \<^verbatim>\<open>startOp('exec')\<close>: the caller has registered an \<^verbatim>\<open>'error'\<close> listener
  on the operation and has called \<^verbatim>\<open>wait()\<close> once.
\<close>

definition busy_heap :: heap where
  "busy_heap =
     upd_op 0 (\<lambda>op. snd (OpConn_wait (on_error op)))
       (snd (ControlConnection_startOp demo_JSON 0 ''exec'' no_options idle_heap))"

text \<open>The same after the server's \<^verbatim>\<open>op.error\<close> envelope with \<^verbatim>\<open>args.error = "boom"\<close>.\<close>

definition error_heap :: heap where
  "error_heap =
     ControlConnection_handleMessage demo_JSON 0 (StringData (CONTROL_PREFIX @ op_error_json))
       busy_heap"

text \<open>A pool whose roster holds the 25 connections 0 to 24, all open and idle.\<close>

definition roster_heap :: heap where
  "roster_heap = empty_heap\<lparr>h_ccs := (\<lambda>_. opened_ControlConnection), h_nextCC := 25\<rparr>"

definition roster_pool :: ControlPool where
  "roster_pool = (new_ControlPool MAX_POOL_SIZE)\<lparr>pool_conns := [0..<25]\<rparr>"

text \<open>
  Two callers of \<^verbatim>\<open>acquire()\<close> on an empty pool with \<^verbatim>\<open>maxSize = 1\<close>: the second call
  starts while the first is suspended at \<^verbatim>\<open>await cc.connect()\<close>; then both sockets open
  and both calls resume.
\<close>

definition race_suspended :: "(acquire_step \<times> acquire_step) \<times> ControlPool \<times> heap" where
  "race_suspended =
     (let (s1, p1, h1) = ControlPool_acquire (new_ControlPool 1) empty_heap;
          (s2, p2, h2) = ControlPool_acquire p1 h1
      in ((s1, s2), p2, h2))"

definition race_resumed :: "ControlPool \<times> heap" where
  "race_resumed =
     (let (_, p2, h2) = race_suspended;
          (_, p3, h3) = ControlPool_acquire_connected 0 p2 (upd_cc 0 ws_on_open h2);
          (_, p4, h4) = ControlPool_acquire_connected 1 p3 (upd_cc 1 ws_on_open h3)
      in (p4, h4))"

text \<open>
  A pool with \<^verbatim>\<open>maxSize = 1\<close> whose only connection is in use, and the same pool after
  three more callers of \<^verbatim>\<open>acquire()\<close> have queued.
\<close>

definition full_heap :: heap where
  "full_heap = upd_cc 0 (ControlConnection_setActive True) idle_heap"

definition full_pool :: ControlPool where
  "full_pool = (new_ControlPool 1)\<lparr>pool_conns := [0]\<rparr>"

definition waiting_pool :: ControlPool where
  "waiting_pool =
     (let (_, p1, _) = ControlPool_acquire full_pool full_heap;
          (_, p2, _) = ControlPool_acquire p1 full_heap;
          (_, p3, _) = ControlPool_acquire p2 full_heap
      in p3)"

section \<open>The frame layout\<close>

lemma write_sends_frame:
  "\<not> op_closed (h_ops h r) \<Longrightarrow> \<not> op_tty (h_ops h r) \<Longrightarrow>
   OpConn_write r data h = cc_sendData (op_cc (h_ops h r)) (encode Stdin data) h"
  by (simp add: OpConn_write_def)

lemma sendEOF_sends_frame:
  "\<not> op_closed (h_ops h r) \<Longrightarrow> \<not> op_tty (h_ops h r) \<Longrightarrow>
   OpConn_sendEOF r h = cc_sendData (op_cc (h_ops h r)) (encode StdinEOF []) h"
  by (simp add: OpConn_sendEOF_def)

lemma exit_code_of_range: "0 \<le> exit_code_of payload \<and> exit_code_of payload < 256"
proof (cases payload)
  case Nil
  then show ?thesis by (simp add: exit_code_of_def)
next
  case (Cons b bs)
  then show ?thesis using uint_lt2p [of b] by (simp add: exit_code_of_def)
qed

lemma exit_code_of_eq: "exit_code_of payload = (case payload of [] \<Rightarrow> 0 | b # _ \<Rightarrow> uint b)"
  by (simp add: exit_code_of_def)

text \<open>
  Claim C6. For every stream tag and every payload, the empty one included, splitting the
  bytes \<open>tag # payload\<close> the way \<^verbatim>\<open>handleData\<close> does gives back the byte of the tag and
  the payload; and the byte determines the tag, since the five tags have different bytes.
\<close>

theorem decode_encode_roundtrip:
  "decode (encode streamId payload) = Some (StreamID_val streamId, payload)
   \<and> (StreamID_val streamId = StreamID_val t) = (streamId = t)"
  by (cases streamId; cases t) (simp_all add: decode_def encode_def)

text \<open>
  Claim C7, as stated, fails: an empty buffer raises nothing. A fresh non-TTY operation
  that handles the empty buffer is left as it was, with no event emitted; a non-TTY
  command session that receives it at time 5 emits nothing either and only has its
  keepalive clock reset.
\<close>

theorem empty_frame_no_error:
  "decode [] = None
   \<and> OpConn_handleData [] (new_OpConn 0 False) = new_OpConn 0 False
   \<and> op_emitted (OpConn_handleData [] (new_OpConn 0 False)) = []
   \<and> wsc_emitted (WSCommand_handleMessage demo_JSON 5 (ArrayBufferData []) (new_WSCommand False)) = []
   \<and> WSCommand_handleMessage demo_JSON 5 (ArrayBufferData []) (new_WSCommand False)
       = (new_WSCommand False)\<lparr>wsc_lastPongTime := 5\<rparr>"
  by (simp add: decode_def OpConn_handleData_def WSCommand_handleMessage_def data_bytes_def
        new_OpConn_def new_WSCommand_def resetKeepalive_def)

text \<open>
  Claim C7, amended. An empty buffer received as a non-TTY frame raises no error and is
  dropped: the split yields no frame; \<^verbatim>\<open>OpConn.handleData\<close> returns with the operation
  unchanged, and \<^verbatim>\<open>WSCommand.handleMessage\<close> returns after resetting the keepalive
  clock, with every other field unchanged. Neither emits an event.
\<close>

theorem empty_frame_ignored:
  assumes "\<not> op_tty op" and "\<not> wsc_tty s"
  shows "decode [] = None \<and> OpConn_handleData [] op = op
       \<and> WSCommand_handleMessage J now (ArrayBufferData []) s = s\<lparr>wsc_lastPongTime := now\<rparr>
       \<and> wsc_emitted (WSCommand_handleMessage J now (ArrayBufferData []) s) = wsc_emitted s"
  using assms
  by (simp add: decode_def OpConn_handleData_def WSCommand_handleMessage_def data_bytes_def
        resetKeepalive_def)

theorem empty_frame_ignored_witness:
  "decode [] = None \<and> OpConn_handleData [] (new_OpConn 0 False) = new_OpConn 0 False
   \<and> WSCommand_handleMessage demo_JSON 5 (ArrayBufferData []) (new_WSCommand False)
       = (new_WSCommand False)\<lparr>wsc_lastPongTime := 5\<rparr>
   \<and> wsc_emitted (WSCommand_handleMessage demo_JSON 5 (ArrayBufferData []) (new_WSCommand False))
       = wsc_emitted (new_WSCommand False)"
proof -
  have op: "\<not> op_tty (new_OpConn 0 False)"
    by (simp add: new_OpConn_def)
  have s: "\<not> wsc_tty (new_WSCommand False)"
    by (simp add: new_WSCommand_def)
  show ?thesis
    by (rule empty_frame_ignored [OF op s])
qed

section \<open>OpConn\<close>

lemma op_closed_handleData: "op_closed (OpConn_handleData d op) = op_closed op"
  by (simp add: OpConn_handleData_def emit_def Let_def split: option.splits prod.splits)

lemma op_closed_handleText: "op_closed (OpConn_handleText J t op) = op_closed op"
  by (simp add: OpConn_handleText_def emit_def split: option.splits)



lemma complete_and_close_close: "op_closed (OpConn_complete e op) \<and> op_closed (OpConn_close op)"
  by (simp add: OpConn_complete_def OpConn_close_def emit_close_def Let_def split: option.splits)

lemma complete_open:
  "\<not> op_closed op \<Longrightarrow>
   OpConn_complete e op
     = op\<lparr>op_closed := True, op_exitCode := (case e of Some n \<Rightarrow> n | None \<Rightarrow> op_exitCode op),
          op_emitted := op_emitted op @ [EvClose],
          op_resolved := op_resolved op
             @ replicate (op_closeWaiters op) (case e of Some n \<Rightarrow> n | None \<Rightarrow> op_exitCode op),
          op_closeWaiters := 0\<rparr>"
  by (cases e) (simp_all add: OpConn_complete_def emit_close_def)

lemma handleData_exit:
  "\<not> op_tty op \<Longrightarrow>
   OpConn_handleData (encode Exit payload) op
     = emit (EvExit (exit_code_of payload)) (op\<lparr>op_exitCode := exit_code_of payload\<rparr>)"
  by (simp add: OpConn_handleData_def decode_def encode_def Let_def)



section \<open>ControlConnection\<close>

lemma handleMessage_control:
  assumes "startsWith s CONTROL_PREFIX"
      and "JSON_parse J (drop (length CONTROL_PREFIX) s) = Some msg"
  shows "ControlConnection_handleMessage J c (StringData s) h
           = snd (ControlConnection_handleControlMessage c msg h)"
  using assms by (simp add: ControlConnection_handleMessage_def)

lemma handleControlMessage_complete:
  assumes "cc_opConn (h_ccs h c) = Some r" and "msg_type msg = Some TYPE_OP_COMPLETE"
      and "msg_args msg = Some a" and "arg_exitCode a = Some n"
  shows "ControlConnection_handleControlMessage c msg h
           = (Inr (), upd_cc c (\<lambda>cc. cc\<lparr>cc_opActive := False, cc_opConn := None\<rparr>)
                        (upd_op r (OpConn_complete (Some n)) h))"
  using assms by (simp add: ControlConnection_handleControlMessage_def)

lemma handleControlMessage_error:
  assumes "cc_opConn (h_ccs h c) = Some r" and "msg_type msg = Some TYPE_OP_ERROR"
      and "msg_args msg = Some a" and "arg_error a = Some m"
      and "0 < op_errorListeners (h_ops h r)"
  shows "ControlConnection_handleControlMessage c msg h
           = (Inr (), upd_cc c (\<lambda>cc. cc\<lparr>cc_opActive := False, cc_opConn := None\<rparr>)
                        (upd_op r (\<lambda>op. OpConn_complete None (emit (EvError (Error m)) op)) h))"
  using assms
  by (simp add: ControlConnection_handleControlMessage_def emit_error_def upd_op_def
        TYPE_OP_ERROR_def TYPE_OP_COMPLETE_def)

text \<open>
  Without an \<^verbatim>\<open>'error'\<close> listener on the operation the \<^verbatim>\<open>op.error\<close> envelope changes
  nothing: \<^verbatim>\<open>emit\<close> throws, \<^verbatim>\<open>handleMessage\<close> catches, and the connection stays busy.
\<close>

lemma handleMessage_error_unheard:
  assumes "cc_opConn (h_ccs h c) = Some r" and "op_errorListeners (h_ops h r) = 0"
      and "startsWith s CONTROL_PREFIX"
      and "JSON_parse J (drop (length CONTROL_PREFIX) s) = Some msg"
      and "msg_type msg = Some TYPE_OP_ERROR"
  shows "ControlConnection_handleMessage J c (StringData s) h = h"
  using assms
  by (simp add: handleMessage_control ControlConnection_handleControlMessage_def emit_error_def
        TYPE_OP_ERROR_def TYPE_OP_COMPLETE_def split: option.splits)

lemma opened_ControlConnection_eq:
  "opened_ControlConnection =
     \<lparr>cc_ws = Some \<lparr>ws_readyState = OPEN, ws_sent = []\<rparr>, cc_opActive = False, cc_opConn = None,
      cc_closed = False, cc_closeError = None, cc_poolActive = False, cc_connected = True,
      cc_emitted = []\<rparr>"
  by (simp add: opened_ControlConnection_def ControlConnection_connect_def
        new_ControlConnection_def new_WebSocket_def ws_on_open_def)

lemma idle_heap_cc: "h_ccs idle_heap 0 = opened_ControlConnection"
  by (simp add: idle_heap_def)

lemma busy_heap_cc:
  "h_ccs busy_heap 0 =
     \<lparr>cc_ws = Some \<lparr>ws_readyState = OPEN, ws_sent = [TextFrame ''control:{}'']\<rparr>,
      cc_opActive = True, cc_opConn = Some 0, cc_closed = False, cc_closeError = None,
      cc_poolActive = False, cc_connected = True, cc_emitted = []\<rparr>"
  by (simp add: busy_heap_def idle_heap_def empty_heap_def opened_ControlConnection_eq
        ControlConnection_startOp_def ControlConnection_sendControl_def ws_is_open_def
        upd_cc_def upd_op_def Let_def WebSocket_send_def CONTROL_PREFIX_def demo_JSON_def)

lemma busy_heap_op:
  "h_ops busy_heap 0 =
     \<lparr>op_cc = 0, op_tty = False, op_closed = False, op_exitCode = - 1, op_errorListeners = 1,
      op_closeWaiters = 1, op_resolved = [], op_emitted = []\<rparr>"
  by (simp add: busy_heap_def idle_heap_def empty_heap_def opened_ControlConnection_eq
        ControlConnection_startOp_def ControlConnection_sendControl_def ws_is_open_def
        upd_cc_def upd_op_def Let_def new_OpConn_def no_options_def OpConn_wait_def on_error_def)

lemma demo_parse:
  "JSON_parse demo_JSON (drop (length CONTROL_PREFIX) (CONTROL_PREFIX @ op_error_json)) = Some op_error_msg"
  "JSON_parse demo_JSON (drop (length CONTROL_PREFIX) (CONTROL_PREFIX @ op_complete_json)) = Some op_complete_msg"
  "startsWith (CONTROL_PREFIX @ op_error_json) CONTROL_PREFIX"
  "startsWith (CONTROL_PREFIX @ op_complete_json) CONTROL_PREFIX"
  by (simp_all add: demo_JSON_def startsWith_def op_error_json_def op_complete_json_def)

lemma demo_msgs:
  "msg_type op_error_msg = Some TYPE_OP_ERROR"
  "msg_args op_error_msg = Some (no_args\<lparr>arg_error := Some ''boom''\<rparr>)"
  "msg_type op_complete_msg = Some TYPE_OP_COMPLETE"
  "msg_args op_complete_msg = Some (no_args\<lparr>arg_exitCode := Some 7\<rparr>)"
  by (simp_all add: op_error_msg_def op_complete_msg_def TYPE_OP_ERROR_def TYPE_OP_COMPLETE_def)

lemma error_heap_eq:
  "error_heap =
     upd_cc 0 (\<lambda>cc. cc\<lparr>cc_opActive := False, cc_opConn := None\<rparr>)
       (upd_op 0 (\<lambda>op. OpConn_complete None (emit (EvError (Error ''boom'')) op)) busy_heap)"
proof -
  have "ControlConnection_handleControlMessage 0 op_error_msg busy_heap
      = (Inr (), upd_cc 0 (\<lambda>cc. cc\<lparr>cc_opActive := False, cc_opConn := None\<rparr>)
           (upd_op 0 (\<lambda>op. OpConn_complete None (emit (EvError (Error ''boom'')) op)) busy_heap))"
    by (rule handleControlMessage_error [where a = "no_args\<lparr>arg_error := Some ''boom''\<rparr>"])
       (simp_all add: busy_heap_cc busy_heap_op demo_msgs)
  then show ?thesis
    by (simp add: error_heap_def handleMessage_control [OF demo_parse(3) demo_parse(1)])
qed

lemma error_heap_op:
  "h_ops error_heap 0 =
     \<lparr>op_cc = 0, op_tty = False, op_closed = True, op_exitCode = - 1, op_errorListeners = 1,
      op_closeWaiters = 0, op_resolved = [- 1], op_emitted = [EvError (Error ''boom''), EvClose]\<rparr>"
  by (simp add: error_heap_eq upd_cc_def upd_op_def busy_heap_op OpConn_complete_def emit_def
        emit_close_def)

text \<open>
  Claim C1, as stated, fails. In the example the operation has an \<^verbatim>\<open>'error'\<close> listener and
  one pending \<^verbatim>\<open>wait()\<close> when the envelope \<^verbatim>\<open>op.error\<close> with \<^verbatim>\<open>args.error = "boom"\<close>
  arrives. The error is emitted as an event; the pending \<^verbatim>\<open>wait()\<close> is resolved, not
  rejected, and with the exit code -1; a later \<^verbatim>\<open>wait()\<close> is fulfilled with -1 as well.
\<close>

theorem op_error_wait_resolves:
  "op_emitted (h_ops error_heap 0) = [EvError (Error ''boom''), EvClose]
   \<and> op_resolved (h_ops error_heap 0) = [- 1]
   \<and> fst (OpConn_wait (h_ops error_heap 0)) = Fulfilled (- 1)
   \<and> fst (OpConn_wait (h_ops error_heap 0)) \<noteq> Rejected (Error ''boom'')"
  by (simp add: error_heap_op OpConn_wait_def)

text \<open>
  Claim C1, amended. When an \<^verbatim>\<open>op.error\<close> envelope with \<^verbatim>\<open>args.error = m\<close> arrives
  while an open operation with an \<^verbatim>\<open>'error'\<close> listener is active, the operation emits an
  \<^verbatim>\<open>'error'\<close> event carrying \<open>m\<close>, then \<^verbatim>\<open>'close'\<close>, and is closed with its exit code
  unchanged; every pending \<^verbatim>\<open>wait()\<close> and every later one resolves with that stored
  exit code. The connection is not closed, its socket is untouched, it is idle again, and
  a following \<^verbatim>\<open>startOp\<close> on it succeeds.
\<close>

theorem op_error_frees_connection:
  assumes "cc_opConn (h_ccs h c) = Some r" and "\<not> op_closed (h_ops h r)"
      and "0 < op_errorListeners (h_ops h r)"
      and "\<not> cc_closed (h_ccs h c)" and "ws_is_open (cc_ws (h_ccs h c))"
      and "startsWith s CONTROL_PREFIX"
      and "JSON_parse J (drop (length CONTROL_PREFIX) s) = Some msg"
      and "msg_type msg = Some TYPE_OP_ERROR"
      and "msg_args msg = Some a" and "arg_error a = Some m"
  shows "(let h' = ControlConnection_handleMessage J c (StringData s) h
          in op_emitted (h_ops h' r) = op_emitted (h_ops h r) @ [EvError (Error m), EvClose]
           \<and> op_closed (h_ops h' r) \<and> op_exitCode (h_ops h' r) = op_exitCode (h_ops h r)
           \<and> op_resolved (h_ops h' r)
               = op_resolved (h_ops h r)
                 @ replicate (op_closeWaiters (h_ops h r)) (op_exitCode (h_ops h r))
           \<and> OpConn_wait (h_ops h' r) = (Fulfilled (op_exitCode (h_ops h r)), h_ops h' r)
           \<and> \<not> cc_closed (h_ccs h' c) \<and> \<not> cc_opActive (h_ccs h' c)
           \<and> cc_opConn (h_ccs h' c) = None \<and> cc_ws (h_ccs h' c) = cc_ws (h_ccs h c)
           \<and> fst (ControlConnection_startOp J c op options h') = Inr (h_nextOp h'))"
proof -
  have eq: "ControlConnection_handleMessage J c (StringData s) h
      = upd_cc c (\<lambda>cc. cc\<lparr>cc_opActive := False, cc_opConn := None\<rparr>)
          (upd_op r (\<lambda>op. OpConn_complete None (emit (EvError (Error m)) op)) h)"
    using assms by (simp add: handleMessage_control handleControlMessage_error)
  have open_after: "\<not> op_closed (emit (EvError (Error m)) (h_ops h r))"
    using assms(2) by (simp add: emit_def)
  show ?thesis
    unfolding eq using assms(2,4,5) open_after
    by (simp add: upd_cc_def upd_op_def complete_open OpConn_wait_def emit_def
          ControlConnection_startOp_def ControlConnection_sendControl_def Let_def ws_is_open_def
          split: option.splits)
qed

theorem op_error_frees_connection_witness:
  "(let h' = ControlConnection_handleMessage demo_JSON 0 (StringData (CONTROL_PREFIX @ op_error_json)) busy_heap
    in op_emitted (h_ops h' 0) = op_emitted (h_ops busy_heap 0) @ [EvError (Error ''boom''), EvClose]
     \<and> op_closed (h_ops h' 0) \<and> op_exitCode (h_ops h' 0) = op_exitCode (h_ops busy_heap 0)
     \<and> op_resolved (h_ops h' 0)
         = op_resolved (h_ops busy_heap 0)
           @ replicate (op_closeWaiters (h_ops busy_heap 0)) (op_exitCode (h_ops busy_heap 0))
     \<and> OpConn_wait (h_ops h' 0) = (Fulfilled (op_exitCode (h_ops busy_heap 0)), h_ops h' 0)
     \<and> \<not> cc_closed (h_ccs h' 0) \<and> \<not> cc_opActive (h_ccs h' 0)
     \<and> cc_opConn (h_ccs h' 0) = None \<and> cc_ws (h_ccs h' 0) = cc_ws (h_ccs busy_heap 0)
     \<and> fst (ControlConnection_startOp demo_JSON 0 ''exec'' no_options h') = Inr (h_nextOp h'))"
proof -
  have 1: "cc_opConn (h_ccs busy_heap 0) = Some 0" by (simp add: busy_heap_cc)
  have 2: "\<not> op_closed (h_ops busy_heap 0)" by (simp add: busy_heap_op)
  have 3: "0 < op_errorListeners (h_ops busy_heap 0)" by (simp add: busy_heap_op)
  have 4: "\<not> cc_closed (h_ccs busy_heap 0)" by (simp add: busy_heap_cc)
  have 5: "ws_is_open (cc_ws (h_ccs busy_heap 0))" by (simp add: busy_heap_cc ws_is_open_def)
  have 6: "arg_error (no_args\<lparr>arg_error := Some ''boom''\<rparr>) = Some ''boom''" by simp
  show ?thesis
    by (rule op_error_frees_connection
          [OF 1 2 3 4 5 demo_parse(3) demo_parse(1) demo_msgs(1) demo_msgs(2) 6])
qed

lemma digits_24_80: "digits 24 = ''24''" "digits 80 = ''80''"
  by code_simp+

lemma build_args_exec_options:
  "build_args print_JSON exec_options =
     \<lparr>arg_cmd = Some [''ls'', ''-la''], arg_env = Some [''A=1''], arg_dir = Some ''/tmp'',
      arg_tty = Some ''true'', arg_rows = Some ''24'', arg_cols = Some ''80'',
      arg_stdin = Some ''true'', arg_exitCode = None, arg_error = None\<rparr>"
  by (simp add: build_args_def exec_options_def no_args_def toString_def MAX_SAFE_INTEGER_def
        decimal_def digits_24_80 Let_def)

lemma render_exec_start:
  \<open>JSON_stringify print_JSON
     (no_message\<lparr>msg_type := Some TYPE_OP_START, msg_op := Some ''exec'',
        msg_args := Some (build_args print_JSON exec_options)\<rparr>)
   = ''{"type":"op.start","op":"exec","args":{"cmd":["ls","-la"],"env":["A=1"],"dir":"/tmp","tty":"true","rows":"24","cols":"80","stdin":"true"}}''\<close>
  unfolding build_args_exec_options
  by (simp add: print_JSON_def render_Message_def render_Args_def
        render_object_def render_strings_def quote_def no_message_def TYPE_OP_START_def)

text \<open>
  Claim C3. \<^verbatim>\<open>startOp\<close> on a closed connection, or on one whose operation is still in
  flight, rejects at once and leaves the store as it was: nothing is sent and nothing is
  queued. On a connection that is neither closed nor busy and whose socket is open it
  returns a new reference holding a fresh OpConn (open, exit code -1, TTY flag from the
  options), marks the connection busy with that operation, and appends exactly one frame
  to what the socket sent: the prefix \<^verbatim>\<open>control:\<close> followed by the JSON of the envelope
  of type \<^verbatim>\<open>op.start\<close> with the operation name and the arguments. The arguments are
  \<^verbatim>\<open>cmd\<close> and \<^verbatim>\<open>env\<close> when given, \<^verbatim>\<open>dir\<close> when not empty, \<^verbatim>\<open>tty = "true"\<close> when the
  flag is set, \<^verbatim>\<open>rows\<close> and \<^verbatim>\<open>cols\<close> as decimal strings when not zero, and \<^verbatim>\<open>stdin\<close>
  as \<^verbatim>\<open>"true"\<close> or \<^verbatim>\<open>"false"\<close> when given; every value is a string or a list of
  strings.
\<close>

theorem startOp_conflict_or_start:
  "(cc_closed (h_ccs h c) \<longrightarrow>
      ControlConnection_startOp J c op options h
        = (Inl (Error (''Control connection closed: '' @ closeError_message (cc_closeError (h_ccs h c)))), h))
   \<and> (\<not> cc_closed (h_ccs h c) \<and> cc_opActive (h_ccs h c) \<longrightarrow>
      ControlConnection_startOp J c op options h = (Inl (Error ''Operation already in progress''), h))
   \<and> (\<not> cc_closed (h_ccs h c) \<and> \<not> cc_opActive (h_ccs h c) \<and> ws_is_open (cc_ws (h_ccs h c)) \<longrightarrow>
      (let r = h_nextOp h;
           args = \<lparr>arg_cmd = opt_cmd options,
                   arg_env = opt_env options,
                   arg_dir = (case opt_dir options of
                                Some dir \<Rightarrow> if dir = [] then None else Some dir
                              | None \<Rightarrow> None),
                   arg_tty = (if opt_tty options = Some True then Some ''true'' else None),
                   arg_rows = (case opt_rows options of
                                 Some rows \<Rightarrow>
                                   if rows = 0 then None
                                   else Some (if \<bar>rows\<bar> \<le> 9007199254740991 then decimal rows
                                              else Number_toString J rows)
                               | None \<Rightarrow> None),
                   arg_cols = (case opt_cols options of
                                 Some cols \<Rightarrow>
                                   if cols = 0 then None
                                   else Some (if \<bar>cols\<bar> \<le> 9007199254740991 then decimal cols
                                              else Number_toString J cols)
                               | None \<Rightarrow> None),
                   arg_stdin = (case opt_stdin options of
                                  Some stdin \<Rightarrow> Some (if stdin then ''true'' else ''false'')
                                | None \<Rightarrow> None),
                   arg_exitCode = None, arg_error = None\<rparr>;
           ctrlMsg = \<lparr>msg_type = Some ''op.start'', msg_op = Some op, msg_args = Some args,
                      msg_cols = None, msg_rows = None, msg_signal = None, msg_exit_code = None\<rparr>;
           h' = snd (ControlConnection_startOp J c op options h)
       in fst (ControlConnection_startOp J c op options h) = Inr r
        \<and> h_ops h' r = new_OpConn c (opt_tty options = Some True)
        \<and> (\<forall>r'. r' \<noteq> r \<longrightarrow> h_ops h' r' = h_ops h r')
        \<and> h_nextOp h' = Suc r
        \<and> cc_opActive (h_ccs h' c) \<and> cc_opConn (h_ccs h' c) = Some r
        \<and> map_option ws_sent (cc_ws (h_ccs h' c))
            = map_option (\<lambda>ws. ws_sent ws @ [TextFrame (''control:'' @ JSON_stringify J ctrlMsg)])
                (cc_ws (h_ccs h c))))"
proof -
  have args: "build_args J options =
      \<lparr>arg_cmd = opt_cmd options,
       arg_env = opt_env options,
       arg_dir = (case opt_dir options of
                    Some dir \<Rightarrow> if dir = [] then None else Some dir
                  | None \<Rightarrow> None),
       arg_tty = (if opt_tty options = Some True then Some ''true'' else None),
       arg_rows = (case opt_rows options of
                     Some rows \<Rightarrow>
                       if rows = 0 then None
                       else Some (if \<bar>rows\<bar> \<le> 9007199254740991 then decimal rows
                                  else Number_toString J rows)
                   | None \<Rightarrow> None),
       arg_cols = (case opt_cols options of
                     Some cols \<Rightarrow>
                       if cols = 0 then None
                       else Some (if \<bar>cols\<bar> \<le> 9007199254740991 then decimal cols
                                  else Number_toString J cols)
                   | None \<Rightarrow> None),
       arg_stdin = (case opt_stdin options of
                      Some stdin \<Rightarrow> Some (if stdin then ''true'' else ''false'')
                    | None \<Rightarrow> None),
       arg_exitCode = None, arg_error = None\<rparr>"
    by (simp add: build_args_def no_args_def toString_def MAX_SAFE_INTEGER_def Let_def
          split: option.splits)
  have msg: "no_message\<lparr>msg_type := Some TYPE_OP_START, msg_op := Some op, msg_args := Some a\<rparr>
      = \<lparr>msg_type = Some ''op.start'', msg_op = Some op, msg_args = Some a,
         msg_cols = None, msg_rows = None, msg_signal = None, msg_exit_code = None\<rparr>" for a
    by (simp add: no_message_def TYPE_OP_START_def)
  show ?thesis
    unfolding args [symmetric] msg [symmetric]
    by (auto simp add: ControlConnection_startOp_def ControlConnection_sendControl_def Let_def
          ws_is_open_def upd_cc_def WebSocket_send_def CONTROL_PREFIX_def split: option.splits)
qed

theorem startOp_conflict_or_start_witness:
  \<open>ControlConnection_startOp demo_JSON 0 ''exec'' no_options (ControlConnection_close 0 idle_heap)
     = (Inl (Error ''Control connection closed: unknown''), ControlConnection_close 0 idle_heap)
   \<and> ControlConnection_startOp demo_JSON 0 ''exec'' no_options busy_heap
       = (Inl (Error ''Operation already in progress''), busy_heap)
   \<and> fst (ControlConnection_startOp print_JSON 0 ''exec'' exec_options idle_heap) = Inr 0
   \<and> h_ops (snd (ControlConnection_startOp print_JSON 0 ''exec'' exec_options idle_heap)) 0
       = new_OpConn 0 True
   \<and> cc_opActive (h_ccs (snd (ControlConnection_startOp print_JSON 0 ''exec'' exec_options idle_heap)) 0)
   \<and> cc_opConn (h_ccs (snd (ControlConnection_startOp print_JSON 0 ''exec'' exec_options idle_heap)) 0)
       = Some 0
   \<and> map_option ws_sent
         (cc_ws (h_ccs (snd (ControlConnection_startOp print_JSON 0 ''exec'' exec_options idle_heap)) 0))
       = Some [TextFrame
           ''control:{"type":"op.start","op":"exec","args":{"cmd":["ls","-la"],"env":["A=1"],"dir":"/tmp","tty":"true","rows":"24","cols":"80","stdin":"true"}}'']\<close>
proof -
  have closed: "cc_closed (h_ccs (ControlConnection_close 0 idle_heap) 0)"
    by (simp add: ControlConnection_close_def upd_cc_def Let_def split: option.splits)
  have no_error: "closeError_message (cc_closeError (h_ccs (ControlConnection_close 0 idle_heap) 0))
      = ''unknown''"
    by (simp add: ControlConnection_close_def upd_cc_def Let_def idle_heap_cc
          opened_ControlConnection_eq closeError_message_def upd_op_def ws_is_open_def)
  have busy: "\<not> cc_closed (h_ccs busy_heap 0) \<and> cc_opActive (h_ccs busy_heap 0)"
    by (simp add: busy_heap_cc)
  have idle: "\<not> cc_closed (h_ccs idle_heap 0) \<and> \<not> cc_opActive (h_ccs idle_heap 0)
      \<and> ws_is_open (cc_ws (h_ccs idle_heap 0))"
    by (simp add: idle_heap_cc opened_ControlConnection_eq ws_is_open_def)
  have next_op: "h_nextOp idle_heap = 0"
    by (simp add: idle_heap_def empty_heap_def)
  have tty: "(opt_tty exec_options = Some True) = True"
    by (simp add: exec_options_def)
  have args: "\<lparr>arg_cmd = opt_cmd exec_options,
       arg_env = opt_env exec_options,
       arg_dir = (case opt_dir exec_options of
                    Some dir \<Rightarrow> if dir = [] then None else Some dir
                  | None \<Rightarrow> None),
       arg_tty = (if opt_tty exec_options = Some True then Some ''true'' else None),
       arg_rows = (case opt_rows exec_options of
                     Some rows \<Rightarrow>
                       if rows = 0 then None
                       else Some (if \<bar>rows\<bar> \<le> 9007199254740991 then decimal rows
                                  else Number_toString print_JSON rows)
                   | None \<Rightarrow> None),
       arg_cols = (case opt_cols exec_options of
                     Some cols \<Rightarrow>
                       if cols = 0 then None
                       else Some (if \<bar>cols\<bar> \<le> 9007199254740991 then decimal cols
                                  else Number_toString print_JSON cols)
                   | None \<Rightarrow> None),
       arg_stdin = (case opt_stdin exec_options of
                      Some stdin \<Rightarrow> Some (if stdin then ''true'' else ''false'')
                    | None \<Rightarrow> None),
       arg_exitCode = None, arg_error = None\<rparr> = build_args print_JSON exec_options"
    unfolding build_args_exec_options
    by (simp add: exec_options_def decimal_def digits_24_80)
  have msg: "\<lparr>msg_type = Some ''op.start'', msg_op = Some ''exec'',
       msg_args = Some (build_args print_JSON exec_options),
       msg_cols = None, msg_rows = None, msg_signal = None, msg_exit_code = None\<rparr>
      = no_message\<lparr>msg_type := Some TYPE_OP_START, msg_op := Some ''exec'',
          msg_args := Some (build_args print_JSON exec_options)\<rparr>"
    by (simp add: no_message_def TYPE_OP_START_def)
  note A = startOp_conflict_or_start [where h = "ControlConnection_close 0 idle_heap" and c = 0
      and J = demo_JSON and op = "''exec''" and options = no_options,
      THEN conjunct1, THEN mp, OF closed]
  note B = startOp_conflict_or_start [where h = busy_heap and c = 0
      and J = demo_JSON and op = "''exec''" and options = no_options,
      THEN conjunct2, THEN conjunct1, THEN mp, OF busy]
  note C = startOp_conflict_or_start [where h = idle_heap and c = 0
      and J = print_JSON and op = "''exec''" and options = exec_options,
      THEN conjunct2, THEN conjunct2, THEN mp, OF idle, unfolded args]
  have sent: "cc_ws (h_ccs idle_heap 0) = Some \<lparr>ws_readyState = OPEN, ws_sent = []\<rparr>"
    by (simp add: idle_heap_cc opened_ControlConnection_eq)
  from C have C': "fst (ControlConnection_startOp print_JSON 0 ''exec'' exec_options idle_heap) = Inr 0
      \<and> h_ops (snd (ControlConnection_startOp print_JSON 0 ''exec'' exec_options idle_heap)) 0
          = new_OpConn 0 True
      \<and> cc_opActive (h_ccs (snd (ControlConnection_startOp print_JSON 0 ''exec'' exec_options idle_heap)) 0)
      \<and> cc_opConn (h_ccs (snd (ControlConnection_startOp print_JSON 0 ''exec'' exec_options idle_heap)) 0)
          = Some 0
      \<and> map_option ws_sent
           (cc_ws (h_ccs (snd (ControlConnection_startOp print_JSON 0 ''exec'' exec_options idle_heap)) 0))
          = Some [TextFrame (''control:'' @ JSON_stringify print_JSON
               \<lparr>msg_type = Some ''op.start'', msg_op = Some ''exec'',
                 msg_args = Some (build_args print_JSON exec_options),
                 msg_cols = None, msg_rows = None, msg_signal = None, msg_exit_code = None\<rparr>)]"
    by (simp add: Let_def next_op tty sent)
  show ?thesis
    using A B C' by (simp add: no_error msg render_exec_start)
qed

lemma closed_busy_heap_op:
  "h_ops (ControlConnection_close 0 busy_heap) 0 =
     \<lparr>op_cc = 0, op_tty = False, op_closed = True, op_exitCode = - 1, op_errorListeners = 1,
      op_closeWaiters = 0, op_resolved = [- 1], op_emitted = [EvClose]\<rparr>"
  by (simp add: ControlConnection_close_def upd_cc_def upd_op_def Let_def busy_heap_cc busy_heap_op
        OpConn_close_def emit_close_def)


lemma dropped_busy_heap_op:
  "h_ops (ws_on_close 0 busy_heap) 0 =
     \<lparr>op_cc = 0, op_tty = False, op_closed = True, op_exitCode = - 1, op_errorListeners = 1,
      op_closeWaiters = 0, op_resolved = [- 1], op_emitted = [EvClose]\<rparr>"
  by (simp add: ws_on_close_def ControlConnection_handleClose_def upd_cc_def upd_op_def Let_def
        busy_heap_cc busy_heap_op OpConn_close_def emit_close_def)


text \<open>
  Claim C4, as stated, fails in its last part: the operation does not become complete
  only when \<^verbatim>\<open>op.complete\<close> arrives. In the example no \<^verbatim>\<open>op.complete\<close> envelope
  arrives; the operation is open, and it is closed, with its pending \<^verbatim>\<open>wait()\<close> resolved,
  when the socket closes, when \<^verbatim>\<open>close()\<close> is called on the connection, and when an
  \<^verbatim>\<open>op.error\<close> envelope arrives.
\<close>

theorem completes_without_op_complete:
  "\<not> op_closed (h_ops busy_heap 0)
   \<and> op_closed (h_ops (ws_on_close 0 busy_heap) 0)
   \<and> op_resolved (h_ops (ws_on_close 0 busy_heap) 0) = [- 1]
   \<and> op_closed (h_ops (ControlConnection_close 0 busy_heap) 0)
   \<and> op_resolved (h_ops (ControlConnection_close 0 busy_heap) 0) = [- 1]
   \<and> op_closed (h_ops error_heap 0)
   \<and> op_resolved (h_ops error_heap 0) = [- 1]"
  by (simp add: busy_heap_op dropped_busy_heap_op closed_busy_heap_op error_heap_op)

text \<open>
  Claim C4, amended. On a connection whose current operation is an open non-TTY OpConn,
  a data frame tagged Exit stores the exit code (the first payload byte, 0 for an empty
  payload) and leaves the closed flag, the busy flag and the current operation as they
  were; no data frame, binary or text, changes the closed flag or the connection. The
  \<^verbatim>\<open>op.complete\<close> envelope with \<^verbatim>\<open>args.exitCode = n\<close> closes the operation with exit
  code \<open>n\<close>, resolves every pending \<^verbatim>\<open>wait()\<close> with \<open>n\<close> (as it does a later one), and
  frees the connection. It is not the only completion: the closing of the socket and
  \<^verbatim>\<open>close()\<close> on the connection close the operation too, and so does an \<^verbatim>\<open>op.error\<close>
  envelope when the operation has an \<^verbatim>\<open>'error'\<close> listener.
\<close>

theorem exit_frame_then_op_complete:
  assumes "cc_opConn (h_ccs h c) = Some r" and "\<not> op_tty (h_ops h r)"
      and "\<not> op_closed (h_ops h r)"
      and "startsWith s CONTROL_PREFIX"
      and "JSON_parse J (drop (length CONTROL_PREFIX) s) = Some msg"
      and "msg_type msg = Some TYPE_OP_COMPLETE"
      and "msg_args msg = Some a" and "arg_exitCode a = Some n"
  shows "(let h' = ControlConnection_handleMessage J c (ArrayBufferData (StreamID_val Exit # payload)) h
          in op_exitCode (h_ops h' r) = (case payload of [] \<Rightarrow> 0 | b # _ \<Rightarrow> uint b)
           \<and> op_closed (h_ops h' r) = op_closed (h_ops h r)
           \<and> cc_opActive (h_ccs h' c) = cc_opActive (h_ccs h c)
           \<and> cc_opConn (h_ccs h' c) = Some r)
     \<and> (let h' = ControlConnection_handleMessage J c (ArrayBufferData b) h
          in op_closed (h_ops h' r) = op_closed (h_ops h r)
           \<and> h_ccs h' = h_ccs h)
     \<and> (\<not> startsWith t CONTROL_PREFIX \<longrightarrow>
         (let h' = ControlConnection_handleMessage J c (StringData t) h
          in op_closed (h_ops h' r) = op_closed (h_ops h r)
           \<and> h_ccs h' = h_ccs h))
     \<and> (let h' = ControlConnection_handleMessage J c (StringData s) h
          in op_closed (h_ops h' r) \<and> op_exitCode (h_ops h' r) = n
           \<and> op_resolved (h_ops h' r)
               = op_resolved (h_ops h r) @ replicate (op_closeWaiters (h_ops h r)) n
           \<and> OpConn_wait (h_ops h' r) = (Fulfilled n, h_ops h' r)
           \<and> \<not> cc_opActive (h_ccs h' c) \<and> cc_opConn (h_ccs h' c) = None)
     \<and> op_closed (h_ops (ws_on_close c h) r)
     \<and> op_closed (h_ops (ControlConnection_close c h) r)
     \<and> (0 < op_errorListeners (h_ops h r) \<and> startsWith s' CONTROL_PREFIX
          \<and> JSON_parse J (drop (length CONTROL_PREFIX) s') = Some msg'
          \<and> msg_type msg' = Some TYPE_OP_ERROR \<longrightarrow>
         op_closed (h_ops (ControlConnection_handleMessage J c (StringData s') h) r))"
proof -
  have exit: "ControlConnection_handleMessage J c (ArrayBufferData (StreamID_val Exit # payload)) h
      = upd_op r (\<lambda>op. emit (EvExit (exit_code_of payload)) (op\<lparr>op_exitCode := exit_code_of payload\<rparr>)) h"
    using assms(1,2) handleData_exit [of "h_ops h r" payload]
    by (simp add: ControlConnection_handleMessage_def upd_op_def encode_def)
  have any: "ControlConnection_handleMessage J c (ArrayBufferData b) h = upd_op r (OpConn_handleData b) h"
    using assms(1) by (simp add: ControlConnection_handleMessage_def)
  have complete: "ControlConnection_handleMessage J c (StringData s) h
      = upd_cc c (\<lambda>cc. cc\<lparr>cc_opActive := False, cc_opConn := None\<rparr>)
          (upd_op r (OpConn_complete (Some n)) h)"
    using assms by (simp add: handleMessage_control handleControlMessage_complete)
  have A: "let h' = ControlConnection_handleMessage J c (ArrayBufferData (StreamID_val Exit # payload)) h
          in op_exitCode (h_ops h' r) = (case payload of [] \<Rightarrow> 0 | b # _ \<Rightarrow> uint b)
           \<and> op_closed (h_ops h' r) = op_closed (h_ops h r)
           \<and> cc_opActive (h_ccs h' c) = cc_opActive (h_ccs h c)
           \<and> cc_opConn (h_ccs h' c) = Some r"
    unfolding exit using assms(1) by (simp add: upd_op_def emit_def exit_code_of_eq)
  have B: "let h' = ControlConnection_handleMessage J c (ArrayBufferData b) h
          in op_closed (h_ops h' r) = op_closed (h_ops h r) \<and> h_ccs h' = h_ccs h"
    unfolding any by (simp add: upd_op_def op_closed_handleData)
  have B': "\<not> startsWith t CONTROL_PREFIX \<longrightarrow>
         (let h' = ControlConnection_handleMessage J c (StringData t) h
          in op_closed (h_ops h' r) = op_closed (h_ops h r) \<and> h_ccs h' = h_ccs h)"
    using assms(1)
    by (simp add: ControlConnection_handleMessage_def upd_op_def op_closed_handleText)
  have C: "let h' = ControlConnection_handleMessage J c (StringData s) h
          in op_closed (h_ops h' r) \<and> op_exitCode (h_ops h' r) = n
           \<and> op_resolved (h_ops h' r)
               = op_resolved (h_ops h r) @ replicate (op_closeWaiters (h_ops h r)) n
           \<and> OpConn_wait (h_ops h' r) = (Fulfilled n, h_ops h' r)
           \<and> \<not> cc_opActive (h_ccs h' c) \<and> cc_opConn (h_ccs h' c) = None"
    unfolding complete using assms(3)
    by (simp add: upd_cc_def upd_op_def complete_open OpConn_wait_def)
  have D: "op_closed (h_ops (ws_on_close c h) r)"
    using assms(1)
    by (simp add: ws_on_close_def ControlConnection_handleClose_def upd_cc_def upd_op_def Let_def
          complete_and_close_close)
  have E: "op_closed (h_ops (ControlConnection_close c h) r)"
    using assms(1)
    by (simp add: ControlConnection_close_def upd_cc_def upd_op_def Let_def
          complete_and_close_close)
  have F: "0 < op_errorListeners (h_ops h r) \<and> startsWith s' CONTROL_PREFIX
          \<and> JSON_parse J (drop (length CONTROL_PREFIX) s') = Some msg'
          \<and> msg_type msg' = Some TYPE_OP_ERROR \<longrightarrow>
         op_closed (h_ops (ControlConnection_handleMessage J c (StringData s') h) r)"
    using assms(1)
    by (auto simp add: handleMessage_control ControlConnection_handleControlMessage_def
          emit_error_def upd_cc_def upd_op_def complete_and_close_close
          TYPE_OP_ERROR_def TYPE_OP_COMPLETE_def split: option.splits)
  from A B B' C D E F show ?thesis by blast
qed

theorem exit_frame_then_op_complete_witness:
  "op_exitCode (h_ops (ControlConnection_handleMessage demo_JSON 0 (ArrayBufferData [3, 42]) busy_heap) 0) = 42
   \<and> op_exitCode (h_ops (ControlConnection_handleMessage demo_JSON 0 (ArrayBufferData [3]) busy_heap) 0) = 0
   \<and> \<not> op_closed (h_ops (ControlConnection_handleMessage demo_JSON 0 (ArrayBufferData [3, 42]) busy_heap) 0)
   \<and> cc_opActive (h_ccs (ControlConnection_handleMessage demo_JSON 0 (ArrayBufferData [3, 42]) busy_heap) 0)
   \<and> cc_opConn (h_ccs (ControlConnection_handleMessage demo_JSON 0 (ArrayBufferData [3, 42]) busy_heap) 0)
       = Some 0
   \<and> \<not> op_closed (h_ops (ControlConnection_handleMessage demo_JSON 0 (ArrayBufferData [1, 104, 105]) busy_heap) 0)
   \<and> \<not> op_closed (h_ops (ControlConnection_handleMessage demo_JSON 0 (StringData ''hello'') busy_heap) 0)
   \<and> op_closed (h_ops (ControlConnection_handleMessage demo_JSON 0
                    (StringData (CONTROL_PREFIX @ op_complete_json)) busy_heap) 0)
   \<and> op_exitCode (h_ops (ControlConnection_handleMessage demo_JSON 0
                    (StringData (CONTROL_PREFIX @ op_complete_json)) busy_heap) 0) = 7
   \<and> op_resolved (h_ops (ControlConnection_handleMessage demo_JSON 0
                    (StringData (CONTROL_PREFIX @ op_complete_json)) busy_heap) 0) = [7]
   \<and> \<not> cc_opActive (h_ccs (ControlConnection_handleMessage demo_JSON 0
                    (StringData (CONTROL_PREFIX @ op_complete_json)) busy_heap) 0)
   \<and> cc_opConn (h_ccs (ControlConnection_handleMessage demo_JSON 0
                    (StringData (CONTROL_PREFIX @ op_complete_json)) busy_heap) 0) = None
   \<and> op_closed (h_ops (ws_on_close 0 busy_heap) 0)
   \<and> op_closed (h_ops (ControlConnection_close 0 busy_heap) 0)
   \<and> op_closed (h_ops (ControlConnection_handleMessage demo_JSON 0
                    (StringData (CONTROL_PREFIX @ op_error_json)) busy_heap) 0)"
proof -
  have 1: "cc_opConn (h_ccs busy_heap 0) = Some 0" by (simp add: busy_heap_cc)
  have 2: "\<not> op_tty (h_ops busy_heap 0)" by (simp add: busy_heap_op)
  have 3: "\<not> op_closed (h_ops busy_heap 0)" by (simp add: busy_heap_op)
  have 4: "arg_exitCode (no_args\<lparr>arg_exitCode := Some 7\<rparr>) = Some 7" by simp
  have 5: "\<not> startsWith ''hello'' CONTROL_PREFIX"
    by (simp add: startsWith_def CONTROL_PREFIX_def)
  have 6: "0 < op_errorListeners (h_ops busy_heap 0)" by (simp add: busy_heap_op)
  have tag: "StreamID_val Exit = 3" "StreamID_val Stdout = 1" by simp_all
  note T = exit_frame_then_op_complete
      [OF 1 2 3 demo_parse(4) demo_parse(2) demo_msgs(3) demo_msgs(4) 4]
  note T42 = T [where payload = "[42]" and b = "[1, 104, 105]" and t = "''hello''"
      and s' = "CONTROL_PREFIX @ op_error_json" and msg' = op_error_msg]
  note T0 = T [where payload = "[]" and b = "[1, 104, 105]" and t = "''hello''"
      and s' = "CONTROL_PREFIX @ op_error_json" and msg' = op_error_msg, THEN conjunct1]
  show ?thesis
    using T42 T0 3 5 6 demo_parse(1,3) demo_msgs(1)
    by (simp add: Let_def busy_heap_op busy_heap_cc)
qed

section \<open>ControlPool\<close>

lemma close_other: "c \<noteq> cc \<Longrightarrow> h_ccs (ControlConnection_close cc h) c = h_ccs h c"
  by (simp add: ControlConnection_close_def upd_cc_def upd_op_def Let_def split: option.splits)

lemma close_closes: "cc_closed (h_ccs (ControlConnection_close cc h) cc)"
  by (simp add: ControlConnection_close_def upd_cc_def Let_def)

lemma fold_close_other:
  "c \<notin> set xs \<Longrightarrow> h_ccs (fold ControlConnection_close xs h) c = h_ccs h c"
  by (induction xs arbitrary: h) (simp_all add: close_other)

lemma fold_close_closes:
  "c \<in> set xs \<Longrightarrow> cc_closed (h_ccs (fold ControlConnection_close xs h) c)"
proof (induction xs arbitrary: h)
  case Nil
  then show ?case by simp
next
  case (Cons x xs)
  show ?case
  proof (cases "c \<in> set xs")
    case True
    then show ?thesis by (simp add: Cons.IH)
  next
    case False
    then have "c = x" using Cons.prems by simp
    then show ?thesis using False by (simp add: fold_close_other close_closes)
  qed
qed

lemma drain_loop_eq:
  "drain_loop idleConns closed toClose p h =
     (p\<lparr>pool_conns := filter (\<lambda>c. c \<notin> set (take (nat (toClose - closed)) idleConns)) (pool_conns p)\<rparr>,
      fold ControlConnection_close (take (nat (toClose - closed)) idleConns) h)"
proof (induction idleConns arbitrary: closed p h)
  case Nil
  then show ?case by simp
next
  case (Cons cc idleConns)
  show ?case
  proof (cases "closed \<ge> toClose")
    case True
    then show ?thesis by simp
  next
    case False
    then have "nat (toClose - closed) = Suc (nat (toClose - (closed + 1)))"
      by linarith
    then have t: "take (nat (toClose - closed)) (cc # idleConns)
        = cc # take (nat (toClose - (closed + 1))) idleConns"
      by simp
    show ?thesis
      using False by (simp add: Cons.IH t)
  qed
qed

lemma length_filter_remove:
  assumes "distinct xs" and "distinct ys" and "set ys \<subseteq> set xs"
  shows "length (filter (\<lambda>c. c \<notin> set ys) xs) = length xs - length ys"
proof -
  have "length (filter (\<lambda>c. c \<notin> set ys) xs) = card (set xs - set ys)"
    using assms(1) by (simp add: distinct_length_filter Diff_eq Int_commute Collect_neg_eq)
  also have "\<dots> = card (set xs) - card (set ys)"
    using assms(3) by (simp add: card_Diff_subset)
  also have "\<dots> = length xs - length ys"
    using assms(1,2) by (simp add: distinct_card)
  finally show ?thesis .
qed

lemma release_with_waiter:
  assumes "pool_waiters p = w # ws"
  shows "ControlPool_release cc p h =
      (p\<lparr>pool_waiters := ws, pool_settled := pool_settled p @ [(w, Resolve cc)]\<rparr>,
       upd_cc cc (\<lambda>x. x\<lparr>cc_opConn := None, cc_poolActive := True\<rparr>) h)"
  using assms
  by (simp add: ControlPool_release_def upd_cc_def ControlConnection_setActive_def
        ControlConnection_clearOpConn_def Let_def)

lemma release_without_waiter:
  assumes "pool_waiters p = []"
  shows "ControlPool_release cc p h =
      ControlPool_tryDrain p
        (upd_cc cc ControlConnection_clearOpConn (upd_cc cc (ControlConnection_setActive False) h))"
  using assms by (simp add: ControlPool_release_def Let_def)

text \<open>A caller that finds the pool full and busy is queued behind the earlier waiters.\<close>

lemma acquire_enqueues_last:
  assumes "\<not> pool_closed p" and "find (available h) (pool_conns p) = None"
      and "\<not> int (length (pool_conns p)) < pool_maxSize p"
  shows "ControlPool_acquire p h =
     (AwaitWaiter (pool_nextWaiter p),
      p\<lparr>pool_waiters := pool_waiters p @ [pool_nextWaiter p],
        pool_nextWaiter := Suc (pool_nextWaiter p)\<rparr>, h)"
  using assms by (simp add: ControlPool_acquire_def Let_def)

lemma tryDrain_eq:
  assumes "\<not> pool_closed p" and "POOL_DRAIN_THRESHOLD < int (length (pool_conns p))"
  shows "ControlPool_tryDrain p h =
     (let idleConns = filter (\<lambda>cc. \<not> cc_poolActive (h_ccs h cc) \<and> \<not> cc_closed (h_ccs h cc)) (pool_conns p);
          gone = take (nat (int (length (pool_conns p)) - POOL_DRAIN_TARGET)) idleConns
      in (p\<lparr>pool_conns := filter (\<lambda>c. c \<notin> set gone) (pool_conns p)\<rparr>,
          fold ControlConnection_close gone h))"
  using assms
  by (simp add: ControlPool_tryDrain_def drain_loop_eq Let_def POOL_DRAIN_THRESHOLD_def
        POOL_DRAIN_TARGET_def ControlConnection_isActive_def ControlConnection_isClosed_def)

lemma tryDrain_small:
  "int (length (pool_conns p)) \<le> POOL_DRAIN_THRESHOLD \<Longrightarrow> ControlPool_tryDrain p h = (p, h)"
  by (simp add: ControlPool_tryDrain_def)

lemma tryDrain_spares:
  assumes "cc_poolActive (h_ccs h c) \<or> cc_closed (h_ccs h c)"
  shows "h_ccs (snd (ControlPool_tryDrain p h)) c = h_ccs h c
       \<and> (c \<in> set (pool_conns (fst (ControlPool_tryDrain p h))) \<longleftrightarrow> c \<in> set (pool_conns p))"
proof (cases "\<not> pool_closed p \<and> POOL_DRAIN_THRESHOLD < int (length (pool_conns p))")
  case True
  define idleConns
    where "idleConns = filter (\<lambda>cc. \<not> cc_poolActive (h_ccs h cc) \<and> \<not> cc_closed (h_ccs h cc)) (pool_conns p)"
  define gone where "gone = take (nat (int (length (pool_conns p)) - POOL_DRAIN_TARGET)) idleConns"
  have "set gone \<subseteq> set idleConns"
    unfolding gone_def by (rule set_take_subset)
  then have "c \<notin> set gone"
    using assms by (auto simp add: idleConns_def)
  then show ?thesis
    using True
    by (simp add: tryDrain_eq Let_def fold_close_other idleConns_def [symmetric] gone_def [symmetric])
next
  case False
  then have "ControlPool_tryDrain p h = (p, h)"
    by (auto simp add: ControlPool_tryDrain_def)
  then show ?thesis by simp
qed

lemma tryDrain_all_idle:
  assumes "\<not> pool_closed p" and "POOL_DRAIN_THRESHOLD < int (length (pool_conns p))"
      and "distinct (pool_conns p)"
      and "\<forall>c \<in> set (pool_conns p). \<not> cc_poolActive (h_ccs h c) \<and> \<not> cc_closed (h_ccs h c)"
  shows "int (length (pool_conns (fst (ControlPool_tryDrain p h)))) = POOL_DRAIN_TARGET"
    and "\<forall>c \<in> set (pool_conns p).
           if c \<in> set (pool_conns (fst (ControlPool_tryDrain p h)))
           then h_ccs (snd (ControlPool_tryDrain p h)) c = h_ccs h c
           else cc_closed (h_ccs (snd (ControlPool_tryDrain p h)) c)"
proof -
  define n where "n = nat (int (length (pool_conns p)) - POOL_DRAIN_TARGET)"
  have idle: "filter (\<lambda>cc. \<not> cc_poolActive (h_ccs h cc) \<and> \<not> cc_closed (h_ccs h cc)) (pool_conns p)
      = pool_conns p"
    using assms(4) by (simp add: filter_id_conv)
  have n: "n \<le> length (pool_conns p)" "int (length (pool_conns p)) - int n = POOL_DRAIN_TARGET"
    using assms(2) by (simp_all add: n_def POOL_DRAIN_THRESHOLD_def POOL_DRAIN_TARGET_def)
  have eq: "ControlPool_tryDrain p h =
      (p\<lparr>pool_conns := filter (\<lambda>c. c \<notin> set (take n (pool_conns p))) (pool_conns p)\<rparr>,
       fold ControlConnection_close (take n (pool_conns p)) h)"
    using assms(1,2) by (simp add: tryDrain_eq Let_def idle n_def [symmetric])
  have "length (filter (\<lambda>c. c \<notin> set (take n (pool_conns p))) (pool_conns p))
      = length (pool_conns p) - length (take n (pool_conns p))"
    using assms(3) by (intro length_filter_remove) (simp_all add: set_take_subset)
  then have "length (filter (\<lambda>c. c \<notin> set (take n (pool_conns p))) (pool_conns p))
      = length (pool_conns p) - n"
    using n(1) by simp
  then show "int (length (pool_conns (fst (ControlPool_tryDrain p h)))) = POOL_DRAIN_TARGET"
    using n by (simp add: eq)
  show "\<forall>c \<in> set (pool_conns p).
           if c \<in> set (pool_conns (fst (ControlPool_tryDrain p h)))
           then h_ccs (snd (ControlPool_tryDrain p h)) c = h_ccs h c
           else cc_closed (h_ccs (snd (ControlPool_tryDrain p h)) c)"
    by (simp add: eq fold_close_other fold_close_closes)
qed

text \<open>
  When each \<^verbatim>\<open>acquire()\<close> that creates a connection resumes before the next call starts,
  the roster stays within \<^verbatim>\<open>maxSize\<close>.
\<close>

lemma acquire_uninterrupted_bound:
  assumes "int (length (pool_conns p)) \<le> pool_maxSize p"
      and "ControlPool_acquire p h = (AwaitConnect cc, p', h')"
  shows "int (length (pool_conns (fst (snd (ControlPool_acquire_connected cc p' h'))))) \<le> pool_maxSize p"
  using assms
  by (auto simp add: ControlPool_acquire_def ControlPool_acquire_connected_def Let_def
        split: if_splits option.splits sum.splits)

text \<open>
  Claim C2: the code breaks it. The check \<^verbatim>\<open>this.conns.length < this.maxSize\<close> and the
  \<^verbatim>\<open>push\<close> are separated by \<^verbatim>\<open>await cc.connect()\<close>. With \<^verbatim>\<open>maxSize = 1\<close>, two calls
  of \<^verbatim>\<open>acquire()\<close> both pass the check before either pushes, both suspend at the
  \<^verbatim>\<open>await\<close>, and once resumed leave a roster of two connections.
\<close>

theorem race_exceeds_maxSize:
  "fst race_suspended = (AwaitConnect 0, AwaitConnect 1)
   \<and> pool_conns (fst (snd race_suspended)) = []
   \<and> pool_conns (fst race_resumed) = [0, 1]
   \<and> pool_maxSize (fst race_resumed) = 1
   \<and> pool_maxSize (fst race_resumed) < int (length (pool_conns (fst race_resumed)))"
proof -
  have s: "race_suspended =
      ((AwaitConnect 0, AwaitConnect 1), new_ControlPool 1,
       snd (snd (ControlPool_acquire (new_ControlPool 1)
         (snd (snd (ControlPool_acquire (new_ControlPool 1) empty_heap))))))"
    by (simp add: race_suspended_def ControlPool_acquire_def new_ControlPool_def empty_heap_def
          ControlConnection_connect_def new_ControlConnection_def upd_cc_def Let_def)
  have r: "fst race_resumed = (new_ControlPool 1)\<lparr>pool_conns := [0, 1]\<rparr>"
    by (simp add: race_resumed_def s ControlPool_acquire_connected_def new_ControlPool_def)
  show ?thesis
    by (simp add: s r new_ControlPool_def)
qed

lemma waiting_pool_eq:
  "waiting_pool = full_pool\<lparr>pool_waiters := [0, 1, 2], pool_nextWaiter := 3\<rparr>"
proof -
  have busy: "\<not> available full_heap 0"
    by (simp add: available_def full_heap_def upd_cc_def ControlConnection_setActive_def
          ControlConnection_isActive_def)
  have "ControlPool_acquire (full_pool\<lparr>pool_waiters := ws, pool_nextWaiter := n\<rparr>) full_heap
      = (AwaitWaiter n, full_pool\<lparr>pool_waiters := ws @ [n], pool_nextWaiter := Suc n\<rparr>, full_heap)"
    for ws n
    using busy by (simp add: ControlPool_acquire_def full_pool_def new_ControlPool_def Let_def)
  from this [where ws = "[]" and n = 0] this [where ws = "[0]" and n = 1]
    this [where ws = "[0, 1]" and n = 2]
  show ?thesis
    by (simp add: waiting_pool_def full_pool_def new_ControlPool_def numeral_2_eq_2 numeral_3_eq_3)
qed

text \<open>
  Successive releases serve the queued waiters in the order of the queue.
\<close>

lemma releases_follow_queue_order:
  assumes "length ccs \<le> length (pool_waiters p)"
  shows "pool_settled (fst (fold (\<lambda>cc (p, h). ControlPool_release cc p h) ccs (p, h)))
           = pool_settled p @ zip (take (length ccs) (pool_waiters p)) (map Resolve ccs)
       \<and> pool_waiters (fst (fold (\<lambda>cc (p, h). ControlPool_release cc p h) ccs (p, h)))
           = drop (length ccs) (pool_waiters p)"
  using assms
proof (induction ccs arbitrary: p h)
  case Nil
  then show ?case by simp
next
  case (Cons cc ccs)
  then obtain w ws where w: "pool_waiters p = w # ws"
    by (cases "pool_waiters p") simp_all
  let ?p = "p\<lparr>pool_waiters := ws, pool_settled := pool_settled p @ [(w, Resolve cc)]\<rparr>"
  have len: "length ccs \<le> length (pool_waiters ?p)"
    using Cons.prems w by simp
  show ?case
    using Cons.IH [OF len] by (simp add: release_with_waiter [OF w] w)
qed

text \<open>
  Claim C8. While a waiter is queued, \<^verbatim>\<open>release(cc)\<close> removes the waiter at the front
  of the queue (callers are queued at the back) and resolves that waiter's promise with
  \<open>cc\<close>. When \<^verbatim>\<open>release\<close> returns the connection is marked active, so no scan of
  \<^verbatim>\<open>acquire()\<close> can pick it; the roster is the same list, no connection was closed and
  no socket touched: no drain ran.
\<close>

theorem release_hands_to_oldest_waiter:
  assumes "pool_waiters p = w # ws"
  shows "(let (p', h') = ControlPool_release cc p h
          in pool_waiters p' = ws
           \<and> pool_settled p' = pool_settled p @ [(w, Resolve cc)]
           \<and> cc_poolActive (h_ccs h' cc)
           \<and> \<not> available h' cc
           \<and> find (available h') (pool_conns p') \<noteq> Some cc
           \<and> pool_conns p' = pool_conns p
           \<and> (\<forall>c. cc_closed (h_ccs h' c) = cc_closed (h_ccs h c)
                  \<and> cc_ws (h_ccs h' c) = cc_ws (h_ccs h c))
           \<and> (\<forall>c. c \<noteq> cc \<longrightarrow> h_ccs h' c = h_ccs h c)
           \<and> h_ops h' = h_ops h)"
proof -
  have "find (available (upd_cc cc (\<lambda>x. x\<lparr>cc_opConn := None, cc_poolActive := True\<rparr>) h)) xs \<noteq> Some cc"
    for xs
    by (auto simp add: find_Some_iff available_def upd_cc_def ControlConnection_isActive_def)
  then show ?thesis
    by (simp add: release_with_waiter [OF assms] available_def upd_cc_def
          ControlConnection_isActive_def)
qed

theorem release_hands_to_oldest_waiter_witness:
  "(let (p', h') = ControlPool_release 0 waiting_pool full_heap
    in pool_waiters p' = [1, 2]
     \<and> pool_settled p' = pool_settled waiting_pool @ [(0, Resolve 0)]
     \<and> cc_poolActive (h_ccs h' 0)
     \<and> \<not> available h' 0
     \<and> find (available h') (pool_conns p') \<noteq> Some 0
     \<and> pool_conns p' = pool_conns waiting_pool
     \<and> (\<forall>c. cc_closed (h_ccs h' c) = cc_closed (h_ccs full_heap c)
            \<and> cc_ws (h_ccs h' c) = cc_ws (h_ccs full_heap c))
     \<and> (\<forall>c. c \<noteq> 0 \<longrightarrow> h_ccs h' c = h_ccs full_heap c)
     \<and> h_ops h' = h_ops full_heap)"
proof -
  have w: "pool_waiters waiting_pool = 0 # [1, 2]"
    by (simp add: waiting_pool_eq)
  show ?thesis
    by (rule release_hands_to_oldest_waiter [OF w])
qed

text \<open>
  Claim C9. On an open pool without waiters whose roster holds more than 20 connections
  (25 in the claim), all distinct and all idle, one \<^verbatim>\<open>release()\<close> leaves exactly 10
  connections in the roster: those kept are not closed, those removed are closed. A drain
  leaves every connection that is active or already closed as it is and in the roster. It
  does nothing when the roster holds at most 20 connections, and \<^verbatim>\<open>release()\<close> with a
  waiter queued neither changes the roster nor closes a connection.
\<close>

theorem release_drains_to_target:
  "(\<not> pool_closed p \<and> pool_waiters p = [] \<and> 20 < length (pool_conns p) \<and> distinct (pool_conns p)
      \<and> (\<forall>c \<in> set (pool_conns p). \<not> cc_poolActive (h_ccs h c) \<and> \<not> cc_closed (h_ccs h c)) \<longrightarrow>
      (let (p', h') = ControlPool_release cc p h
       in length (pool_conns p') = 10
        \<and> (\<forall>c \<in> set (pool_conns p).
              if c \<in> set (pool_conns p') then \<not> cc_closed (h_ccs h' c) else cc_closed (h_ccs h' c))))
   \<and> (cc_poolActive (h_ccs h c) \<or> cc_closed (h_ccs h c) \<longrightarrow>
        h_ccs (snd (ControlPool_tryDrain p h)) c = h_ccs h c
        \<and> (c \<in> set (pool_conns (fst (ControlPool_tryDrain p h))) \<longleftrightarrow> c \<in> set (pool_conns p)))
   \<and> (length (pool_conns p) \<le> 20 \<longrightarrow> ControlPool_tryDrain p h = (p, h))
   \<and> (pool_waiters p \<noteq> [] \<longrightarrow>
        pool_conns (fst (ControlPool_release cc p h)) = pool_conns p
        \<and> (\<forall>c. cc_closed (h_ccs (snd (ControlPool_release cc p h)) c) = cc_closed (h_ccs h c)))"
proof (intro conjI impI)
  assume a: "\<not> pool_closed p \<and> pool_waiters p = [] \<and> 20 < length (pool_conns p)
      \<and> distinct (pool_conns p)
      \<and> (\<forall>c \<in> set (pool_conns p). \<not> cc_poolActive (h_ccs h c) \<and> \<not> cc_closed (h_ccs h c))"
  define h2 where "h2 = upd_cc cc ControlConnection_clearOpConn
      (upd_cc cc (ControlConnection_setActive False) h)"
  have idle: "\<forall>c \<in> set (pool_conns p). \<not> cc_poolActive (h_ccs h2 c) \<and> \<not> cc_closed (h_ccs h2 c)"
    using a
    by (simp add: h2_def upd_cc_def ControlConnection_clearOpConn_def ControlConnection_setActive_def)
  have big: "POOL_DRAIN_THRESHOLD < int (length (pool_conns p))"
    using a by (simp add: POOL_DRAIN_THRESHOLD_def)
  have rel: "ControlPool_release cc p h = ControlPool_tryDrain p h2"
    using a by (simp add: release_without_waiter h2_def)
  have len: "length (pool_conns (fst (ControlPool_tryDrain p h2))) = 10"
    using tryDrain_all_idle(1) [OF _ big _ idle] a by (simp add: POOL_DRAIN_TARGET_def)
  have each: "\<forall>c \<in> set (pool_conns p).
      if c \<in> set (pool_conns (fst (ControlPool_tryDrain p h2)))
      then h_ccs (snd (ControlPool_tryDrain p h2)) c = h_ccs h2 c
      else cc_closed (h_ccs (snd (ControlPool_tryDrain p h2)) c)"
    using tryDrain_all_idle(2) [OF _ big _ idle] a by simp
  have "\<forall>c \<in> set (pool_conns p).
      if c \<in> set (pool_conns (fst (ControlPool_tryDrain p h2)))
      then \<not> cc_closed (h_ccs (snd (ControlPool_tryDrain p h2)) c)
      else cc_closed (h_ccs (snd (ControlPool_tryDrain p h2)) c)"
  proof
    fix c assume c: "c \<in> set (pool_conns p)"
    show "if c \<in> set (pool_conns (fst (ControlPool_tryDrain p h2)))
      then \<not> cc_closed (h_ccs (snd (ControlPool_tryDrain p h2)) c)
      else cc_closed (h_ccs (snd (ControlPool_tryDrain p h2)) c)"
      using each [rule_format, OF c] idle [rule_format, OF c] by (simp split: if_splits)
  qed
  with len show "let (p', h') = ControlPool_release cc p h
       in length (pool_conns p') = 10
        \<and> (\<forall>c \<in> set (pool_conns p).
              if c \<in> set (pool_conns p') then \<not> cc_closed (h_ccs h' c) else cc_closed (h_ccs h' c))"
    unfolding rel by (simp add: case_prod_beta)
next
  assume "cc_poolActive (h_ccs h c) \<or> cc_closed (h_ccs h c)"
  from tryDrain_spares [OF this, of p]
  show "h_ccs (snd (ControlPool_tryDrain p h)) c = h_ccs h c"
    and "(c \<in> set (pool_conns (fst (ControlPool_tryDrain p h)))) = (c \<in> set (pool_conns p))"
    by simp_all
next
  assume "length (pool_conns p) \<le> 20"
  then show "ControlPool_tryDrain p h = (p, h)"
    by (simp add: tryDrain_small POOL_DRAIN_THRESHOLD_def)
next
  assume "pool_waiters p \<noteq> []"
  then obtain w ws where w: "pool_waiters p = w # ws"
    by (cases "pool_waiters p") simp_all
  show "pool_conns (fst (ControlPool_release cc p h)) = pool_conns p"
    by (simp add: release_with_waiter [OF w])
  show "\<forall>c. cc_closed (h_ccs (snd (ControlPool_release cc p h)) c) = cc_closed (h_ccs h c)"
    by (simp add: release_with_waiter [OF w] upd_cc_def)
qed

theorem release_drains_to_target_witness:
  "(let (p', h') = ControlPool_release 3 roster_pool roster_heap
    in length (pool_conns p') = 10
     \<and> (\<forall>c \<in> set (pool_conns roster_pool).
           if c \<in> set (pool_conns p') then \<not> cc_closed (h_ccs h' c) else cc_closed (h_ccs h' c)))
   \<and> (h_ccs (snd (ControlPool_tryDrain roster_pool full_heap)) 0 = h_ccs full_heap 0
        \<and> (0 \<in> set (pool_conns (fst (ControlPool_tryDrain roster_pool full_heap)))
             \<longleftrightarrow> 0 \<in> set (pool_conns roster_pool)))
   \<and> ControlPool_tryDrain full_pool full_heap = (full_pool, full_heap)
   \<and> (pool_conns (fst (ControlPool_release 0 waiting_pool full_heap)) = pool_conns waiting_pool
        \<and> (\<forall>c. cc_closed (h_ccs (snd (ControlPool_release 0 waiting_pool full_heap)) c)
                = cc_closed (h_ccs full_heap c)))"
proof -
  have roster: "\<not> pool_closed roster_pool \<and> pool_waiters roster_pool = []
      \<and> 20 < length (pool_conns roster_pool) \<and> distinct (pool_conns roster_pool)
      \<and> (\<forall>c \<in> set (pool_conns roster_pool).
            \<not> cc_poolActive (h_ccs roster_heap c) \<and> \<not> cc_closed (h_ccs roster_heap c))"
    by (simp add: roster_pool_def roster_heap_def new_ControlPool_def opened_ControlConnection_eq)
  have A: "let (p', h') = ControlPool_release 3 roster_pool roster_heap
    in length (pool_conns p') = 10
     \<and> (\<forall>c \<in> set (pool_conns roster_pool).
           if c \<in> set (pool_conns p') then \<not> cc_closed (h_ccs h' c) else cc_closed (h_ccs h' c))"
    by (rule release_drains_to_target [THEN conjunct1, THEN mp, OF roster])
  have active: "cc_poolActive (h_ccs full_heap 0) \<or> cc_closed (h_ccs full_heap 0)"
    by (simp add: full_heap_def upd_cc_def ControlConnection_setActive_def)
  have B: "h_ccs (snd (ControlPool_tryDrain roster_pool full_heap)) 0 = h_ccs full_heap 0
        \<and> (0 \<in> set (pool_conns (fst (ControlPool_tryDrain roster_pool full_heap)))
             \<longleftrightarrow> 0 \<in> set (pool_conns roster_pool))"
    by (rule release_drains_to_target [THEN conjunct2, THEN conjunct1, THEN mp, OF active])
  have small: "length (pool_conns full_pool) \<le> 20"
    by (simp add: full_pool_def new_ControlPool_def)
  have C: "ControlPool_tryDrain full_pool full_heap = (full_pool, full_heap)"
    by (rule release_drains_to_target
          [THEN conjunct2, THEN conjunct2, THEN conjunct1, THEN mp, OF small])
  have waiting: "pool_waiters waiting_pool \<noteq> []"
    by (simp add: waiting_pool_eq)
  have D: "pool_conns (fst (ControlPool_release 0 waiting_pool full_heap)) = pool_conns waiting_pool
        \<and> (\<forall>c. cc_closed (h_ccs (snd (ControlPool_release 0 waiting_pool full_heap)) c)
                = cc_closed (h_ccs full_heap c))"
    by (rule release_drains_to_target
          [THEN conjunct2, THEN conjunct2, THEN conjunct2, THEN mp, OF waiting])
  show ?thesis
    by (rule conjI [OF A conjI [OF B conjI [OF C D]]])
qed

section \<open>WSCommand\<close>

lemma handleMessage_done:
  assumes "wsc_done s" and "\<not> wsc_tty s"
  shows "wsc_done (WSCommand_handleMessage J now d s) \<and> \<not> wsc_tty (WSCommand_handleMessage J now d s)
       \<and> filter terminal (wsc_emitted (WSCommand_handleMessage J now d s))
           = filter terminal (wsc_emitted s)"
  using assms
  by (simp add: WSCommand_handleMessage_def resetKeepalive_def stopKeepalive_def ws_emit_def
        exit_once_def WSCommand_close_def Let_def split: option.splits prod.splits)

lemma handle_all_Cons:
  "handle_all J ((now, d) # ds) s = handle_all J ds (WSCommand_handleMessage J now d s)"
  by (simp add: handle_all_def)

lemma handle_all_done:
  assumes "wsc_done s" and "\<not> wsc_tty s"
  shows "wsc_done (handle_all J ds s) \<and> \<not> wsc_tty (handle_all J ds s)
       \<and> filter terminal (wsc_emitted (handle_all J ds s)) = filter terminal (wsc_emitted s)"
  using assms
proof (induction ds arbitrary: s)
  case Nil
  then show ?case by (simp add: handle_all_def)
next
  case (Cons x ds)
  obtain now d where x: "x = (now, d)" by (cases x)
  show ?case
    unfolding x handle_all_Cons
    using Cons.IH [of "WSCommand_handleMessage J now d s"]
      handleMessage_done [OF Cons.prems, of J now d]
    by simp
qed

lemma handleMessage_exit:
  assumes "\<not> wsc_tty s" and "\<not> wsc_done s"
  shows "wsc_done (WSCommand_handleMessage J now (ArrayBufferData (StreamID_val Exit # payload)) s)
       \<and> \<not> wsc_tty (WSCommand_handleMessage J now (ArrayBufferData (StreamID_val Exit # payload)) s)
       \<and> wsc_exitCode (WSCommand_handleMessage J now (ArrayBufferData (StreamID_val Exit # payload)) s)
           = exit_code_of payload
       \<and> wsc_emitted (WSCommand_handleMessage J now (ArrayBufferData (StreamID_val Exit # payload)) s)
           = wsc_emitted s @ [WsExit (exit_code_of payload)]"
  using assms
  by (simp add: WSCommand_handleMessage_def resetKeepalive_def stopKeepalive_def ws_emit_def
        exit_once_def WSCommand_close_def decode_def data_bytes_def Let_def)

lemma handleMessage_no_exit:
  assumes "\<not> wsc_tty s" and "\<not> is_exit_frame d"
  shows "wsc_tty (WSCommand_handleMessage J now d s) = wsc_tty s
       \<and> wsc_done (WSCommand_handleMessage J now d s) = wsc_done s
       \<and> wsc_exitCode (WSCommand_handleMessage J now d s) = wsc_exitCode s
       \<and> wsc_closeError (WSCommand_handleMessage J now d s) = wsc_closeError s
       \<and> filter terminal (wsc_emitted (WSCommand_handleMessage J now d s))
           = filter terminal (wsc_emitted s)"
  using assms
  by (simp add: WSCommand_handleMessage_def resetKeepalive_def ws_emit_def is_exit_frame_def Let_def
        split: option.splits prod.splits)

lemma handle_all_no_exit:
  assumes "\<not> wsc_tty s" and "\<forall>(now, d) \<in> set ds. \<not> is_exit_frame d"
  shows "wsc_tty (handle_all J ds s) = wsc_tty s
       \<and> wsc_done (handle_all J ds s) = wsc_done s
       \<and> wsc_exitCode (handle_all J ds s) = wsc_exitCode s
       \<and> wsc_closeError (handle_all J ds s) = wsc_closeError s
       \<and> filter terminal (wsc_emitted (handle_all J ds s)) = filter terminal (wsc_emitted s)"
  using assms
proof (induction ds arbitrary: s)
  case Nil
  then show ?case by (simp add: handle_all_def)
next
  case (Cons x ds)
  obtain now d where x: "x = (now, d)" by (cases x)
  have d: "\<not> is_exit_frame d" and ds: "\<forall>(now, d) \<in> set ds. \<not> is_exit_frame d"
    using Cons.prems(2) by (simp_all add: x)
  note one = handleMessage_no_exit [OF Cons.prems(1) d, of J now]
  have "\<not> wsc_tty (WSCommand_handleMessage J now d s)"
    using one Cons.prems(1) by simp
  from Cons.IH [OF this ds] one show ?case
    unfolding x handle_all_Cons by simp
qed

lemma handleClose_no_exit_code:
  assumes "\<not> wsc_tty s" and "\<not> wsc_done s" and "wsc_exitCode s = - 1"
  shows "wsc_emitted (WSCommand_handleClose J code s) = wsc_emitted s @ [WsError (close_error J code s)]"
  using assms
  by (simp add: WSCommand_handleClose_def close_error_def stopKeepalive_def ws_emit_def Let_def)

lemma handleClose_done: "wsc_done s \<Longrightarrow> wsc_emitted (WSCommand_handleClose J code s) = wsc_emitted s"
  by (simp add: WSCommand_handleClose_def stopKeepalive_def Let_def)

lemma close_error_eq:
  "close_error J code s =
     (case wsc_closeError s of
        Some e \<Rightarrow> e
      | None \<Rightarrow>
          Error (''WebSocket closed without exit frame (code ''
                 @ (if \<bar>code\<bar> \<le> 9007199254740991 then decimal code else Number_toString J code)
                 @ '')''))"
  by (simp add: close_error_def toString_def MAX_SAFE_INTEGER_def split: option.splits)

lemma decimal_1006: "decimal 1006 = ''1006''"
  by code_simp

text \<open>
  Claim C5. For a non-TTY session that is not done: if the exit code is still -1 when the
  transport closes, \<^verbatim>\<open>handleClose\<close> emits exactly one event, an error, whatever the
  close code (the error stored by the socket's error listener, or else one that names the
  close code); the same holds after any messages none of which is an Exit frame: the
  session then ends with that error and no exit event. Once an Exit frame has been
  handled, whatever messages follow and whatever the close code, the session has ended
  with exactly one exit event, carrying the first payload byte of that frame (0 for an
  empty payload), and no error.
\<close>

theorem close_without_exit_frame_is_error:
  assumes "\<not> wsc_tty s" and "\<not> wsc_done s"
  shows "(wsc_exitCode s = - 1 \<longrightarrow>
            wsc_emitted (WSCommand_handleClose J code s)
              = wsc_emitted s
                @ [WsError (case wsc_closeError s of
                              Some e \<Rightarrow> e
                            | None \<Rightarrow>
                                Error (''WebSocket closed without exit frame (code ''
                                       @ (if \<bar>code\<bar> \<le> 9007199254740991 then decimal code
                                          else Number_toString J code)
                                       @ '')''))])
       \<and> (wsc_exitCode s = - 1 \<and> (\<forall>(now, d) \<in> set ds. \<not> is_exit_frame d) \<longrightarrow>
            filter terminal (wsc_emitted (WSCommand_handleClose J code (handle_all J ds s)))
              = filter terminal (wsc_emitted s)
                @ [WsError (case wsc_closeError s of
                              Some e \<Rightarrow> e
                            | None \<Rightarrow>
                                Error (''WebSocket closed without exit frame (code ''
                                       @ (if \<bar>code\<bar> \<le> 9007199254740991 then decimal code
                                          else Number_toString J code)
                                       @ '')''))])
       \<and> filter terminal (wsc_emitted (WSCommand_handleClose J code
             (handle_all J ds
                (WSCommand_handleMessage J now (ArrayBufferData (StreamID_val Exit # payload)) s))))
           = filter terminal (wsc_emitted s)
             @ [WsExit (case payload of [] \<Rightarrow> 0 | b # _ \<Rightarrow> uint b)]"
proof (intro conjI impI)
  assume "wsc_exitCode s = - 1"
  then show "wsc_emitted (WSCommand_handleClose J code s)
      = wsc_emitted s
        @ [WsError (case wsc_closeError s of
                      Some e \<Rightarrow> e
                    | None \<Rightarrow>
                        Error (''WebSocket closed without exit frame (code ''
                               @ (if \<bar>code\<bar> \<le> 9007199254740991 then decimal code
                                  else Number_toString J code)
                               @ '')''))]"
    using assms by (simp add: handleClose_no_exit_code close_error_eq)
next
  assume a: "wsc_exitCode s = - 1 \<and> (\<forall>(now, d) \<in> set ds. \<not> is_exit_frame d)"
  let ?s = "handle_all J ds s"
  have same: "\<not> wsc_tty ?s" "\<not> wsc_done ?s" "wsc_exitCode ?s = - 1"
    "wsc_closeError ?s = wsc_closeError s"
    "filter terminal (wsc_emitted ?s) = filter terminal (wsc_emitted s)"
    using handle_all_no_exit [OF assms(1), of ds J] a assms by simp_all
  have "close_error J code ?s = close_error J code s"
    using same(4) by (simp add: close_error_def)
  then show "filter terminal (wsc_emitted (WSCommand_handleClose J code ?s))
      = filter terminal (wsc_emitted s)
        @ [WsError (case wsc_closeError s of
                      Some e \<Rightarrow> e
                    | None \<Rightarrow>
                        Error (''WebSocket closed without exit frame (code ''
                               @ (if \<bar>code\<bar> \<le> 9007199254740991 then decimal code
                                  else Number_toString J code)
                               @ '')''))]"
    using same by (simp add: handleClose_no_exit_code close_error_eq [symmetric])
next
  let ?s1 = "WSCommand_handleMessage J now (ArrayBufferData (StreamID_val Exit # payload)) s"
  note e = handleMessage_exit [OF assms, of J now payload]
  have d: "wsc_done ?s1" and t: "\<not> wsc_tty ?s1"
    using e by simp_all
  note a = handle_all_done [OF d t, of J ds]
  show "filter terminal (wsc_emitted (WSCommand_handleClose J code (handle_all J ds ?s1)))
      = filter terminal (wsc_emitted s) @ [WsExit (case payload of [] \<Rightarrow> 0 | b # _ \<Rightarrow> uint b)]"
    using a e by (simp add: handleClose_done exit_code_of_eq)
qed

theorem close_without_exit_frame_is_error_witness:
  "wsc_emitted (WSCommand_handleClose demo_JSON 1006 (new_WSCommand False))
     = [WsError (Error ''WebSocket closed without exit frame (code 1006)'')]
   \<and> filter terminal (wsc_emitted (WSCommand_handleClose demo_JSON 1006
         (handle_all demo_JSON [(10, ArrayBufferData [1, 104, 105])] (new_WSCommand False))))
       = [WsError (Error ''WebSocket closed without exit frame (code 1006)'')]
   \<and> filter terminal (wsc_emitted (WSCommand_handleClose demo_JSON 1006
         (handle_all demo_JSON [(30, ArrayBufferData [1, 104, 105])]
            (WSCommand_handleMessage demo_JSON 20 (ArrayBufferData [3, 42]) (new_WSCommand False)))))
       = [WsExit 42]
   \<and> filter terminal (wsc_emitted (WSCommand_handleClose demo_JSON 1006
         (handle_all demo_JSON []
            (WSCommand_handleMessage demo_JSON 20 (ArrayBufferData [3]) (new_WSCommand False)))))
       = [WsExit 0]"
proof -
  have tty: "\<not> wsc_tty (new_WSCommand False)" and "done": "\<not> wsc_done (new_WSCommand False)"
    by (simp_all add: new_WSCommand_def)
  have code: "wsc_exitCode (new_WSCommand False) = - 1"
    by (simp add: new_WSCommand_def)
  have fresh: "wsc_emitted (new_WSCommand False) = []" "wsc_closeError (new_WSCommand False) = None"
    by (simp_all add: new_WSCommand_def)
  have frames: "\<forall>(now, d) \<in> set [(10, ArrayBufferData [1, 104, 105])]. \<not> is_exit_frame d"
    by (simp add: is_exit_frame_def decode_def data_bytes_def)
  have tag: "StreamID_val Exit = 3" by simp
  note T = close_without_exit_frame_is_error [OF tty "done", where code = 1006 and J = demo_JSON]
  note A = T [THEN conjunct1, THEN mp, OF code]
  note B = T [where ds = "[(10, ArrayBufferData [1, 104, 105])]",
      THEN conjunct2, THEN conjunct1, THEN mp, OF conjI [OF code frames]]
  note C = T [where ds = "[(30, ArrayBufferData [1, 104, 105])]" and now = 20 and payload = "[42]",
      THEN conjunct2, THEN conjunct2]
  note D = T [where ds = "[]" and now = 20 and payload = "[]", THEN conjunct2, THEN conjunct2]
  show ?thesis
    using A B C D by (simp add: fresh decimal_1006)
qed

end
